theory Spec2Isabelle
  imports Main "HOL-Library.Sublist" "HOL-Library.Char_ord"
begin

section \<open>Python strings and exceptions\<close>

text \<open>
  The loader \<^verbatim>\<open>postcode_parser.py\<close> is modelled function by function.  An exception
  is a pair of its class and its message; a call that can raise returns
  \<open>(Inl exception, world)\<close> or \<open>(Inr value, world)\<close>, so the effects made before a raise
  stay visible.
\<close>

datatype exc_class =
    NameError | UnboundLocalError | TypeError | AttributeError | IndexError
  | KeyError | FileNotFoundError | OSError | BadZipFile | UnicodeDecodeError
  | OperationalError | DatabaseError

type_synonym pyerr = "exc_class \<times> string"

text \<open>
  A character is a code point below 256.  \<^verbatim>\<open>str.lower\<close> changes exactly the letters A to
  Z and the upper-case letters of the Latin-1 range (0xC0 to 0xDE without the multiplication
  sign 0xD7), each to the code point 32 above.  In all of them the bit of weight 32 is
  clear, so adding 32 is setting that bit.
\<close>

definition is_upper :: "char \<Rightarrow> bool" where
  "is_upper c =
     ((CHR ''A'' \<le> c \<and> c \<le> CHR ''Z'') \<or> (CHR 0xC0 \<le> c \<and> c \<le> CHR 0xDE \<and> c \<noteq> CHR 0xD7))"

fun plus32 :: "char \<Rightarrow> char" where
  "plus32 (Char b0 b1 b2 b3 b4 b5 b6 b7) = Char b0 b1 b2 b3 b4 True b6 b7"

definition lower_char :: "char \<Rightarrow> char" where
  "lower_char c = (if is_upper c then plus32 c else c)"

definition lower :: "string \<Rightarrow> string" where
  "lower s = map lower_char s"

definition endswith :: "string \<Rightarrow> string \<Rightarrow> bool" where
  "endswith s suf = (length suf \<le> length s \<and> drop (length s - length suf) s = suf)"

definition startswith :: "string \<Rightarrow> string \<Rightarrow> bool" where
  "startswith s pre = (take (length pre) s = pre)"

text \<open>\<^verbatim>\<open>s.split(sep)\<close> for a one-character separator: never an empty list.\<close>

fun split_on :: "char \<Rightarrow> string \<Rightarrow> string list" where
  "split_on sep [] = [[]]"
| "split_on sep (c # cs) =
     (if c = sep then [] # split_on sep cs
      else (case split_on sep cs of [] \<Rightarrow> [[c]] | t # ts \<Rightarrow> (c # t) # ts))"

text \<open>
  \<^verbatim>\<open>f.readlines()\<close> on the decoded text of a file (line breaks already translated to
  the line feed, as text mode does): every line keeps its terminator.
\<close>

fun readlines :: "string \<Rightarrow> string list" where
  "readlines [] = []"
| "readlines (c # cs) =
     (if c = CHR 0x0A then [c] # readlines cs
      else (case readlines cs of [] \<Rightarrow> [[c]] | l # ls \<Rightarrow> (c # l) # ls))"

text \<open>Decimal rendering of \<^verbatim>\<open>j+1\<close> inside an f-string.\<close>

function string_of_nat :: "nat \<Rightarrow> string" where
  "string_of_nat n =
     (if n < 10 then [''0123456789'' ! n]
      else string_of_nat (n div 10) @ [''0123456789'' ! (n mod 10)])"
  by pat_completeness auto
termination
  by (relation "measure id") auto

text \<open>
  Calling a function defined with required positional parameters only: the number of
  arguments must be the number of parameters, or the call raises TypeError before the body
  runs.  The message names the function and the parameters left without a value; its
  wording is abridged.
\<close>

definition call_positional :: "string \<Rightarrow> string list \<Rightarrow> 'a list \<Rightarrow> pyerr + 'a list" where
  "call_positional fname params args =
     (if length args < length params then
        Inl (TypeError, fname @ ''() missing '' @ string_of_nat (length params - length args)
               @ '' required positional argument(s): '' @ concat (map (\<lambda>p. p @ '' '') (drop (length args) params)))
      else if length params < length args then
        Inl (TypeError, fname @ ''() takes '' @ string_of_nat (length params)
               @ '' positional arguments but '' @ string_of_nat (length args) @ '' were given'')
      else Inr args)"

section \<open>The module's global names\<close>

text \<open>
  The names bound at module level once \<^verbatim>\<open>postcode_parser.py\<close> has been executed: its
  imports, its constants, its three functions, its class, and \<^verbatim>\<open>parser\<close> when run as a
  script.
\<close>

definition module_globals :: "string list" where
  "module_globals =
     [''os'', ''ZipFile'', ''config'', ''GoogleAuth'', ''GoogleDrive'', ''psycopg2'',
      ''DATASETS_DIR'', ''GDRIVE_SETTINGS_FILE'', ''GDRIVE_TEAM_ID'', ''GDRIVE_FOLDER_ID'',
      ''DB_HOST'', ''DB_PORT'', ''DB_USER'', ''DB_PASS'', ''DB_NAME'', ''DB_CONN_STR'',
      ''create_service'', ''download_gdrive_folder'', ''copy_from_csv'', ''PostcodeParser'',
      ''parser'']"

text \<open>The lower-case names of Python's builtins namespace (functions and types).\<close>

definition builtin_names :: "string list" where
  "builtin_names =
     [''abs'', ''aiter'', ''all'', ''anext'', ''any'', ''ascii'', ''bin'', ''bool'',
      ''breakpoint'', ''bytearray'', ''bytes'', ''callable'', ''chr'', ''classmethod'',
      ''compile'', ''complex'', ''copyright'', ''credits'', ''delattr'', ''dict'', ''dir'',
      ''divmod'', ''enumerate'', ''eval'', ''exec'', ''exit'', ''filter'', ''float'',
      ''format'', ''frozenset'', ''getattr'', ''globals'', ''hasattr'', ''hash'', ''help'',
      ''hex'', ''id'', ''input'', ''int'', ''isinstance'', ''issubclass'', ''iter'', ''len'',
      ''license'', ''list'', ''locals'', ''map'', ''max'', ''memoryview'', ''min'', ''next'',
      ''object'', ''oct'', ''open'', ''ord'', ''pow'', ''print'', ''property'', ''quit'',
      ''range'', ''repr'', ''reversed'', ''round'', ''set'', ''setattr'', ''slice'',
      ''sorted'', ''staticmethod'', ''str'', ''sum'', ''super'', ''tuple'', ''type'',
      ''vars'', ''zip'']"

text \<open>
  Looking a global name up at call time: the module's globals, then the builtins.  A name
  bound in neither has no value, whatever implementation one has in mind for it.
\<close>

definition resolve_global :: "string \<Rightarrow> 'a \<Rightarrow> 'a option" where
  "resolve_global name impl =
     (if name \<in> set module_globals \<or> name \<in> set builtin_names then Some impl else None)"

section \<open>The relational store\<close>

text \<open>
  A table is its column names, their types, its rows (one value per column) and its primary
  key column.  \<open>TText\<close> is character varying without a length, \<open>TVarchar n\<close> with one.
\<close>

datatype val = VNull | VText string | VInt int

datatype coltype = TInt | TBigint | TVarchar nat | TText | TGeometry | TGeography | TBigserial

record table =
  t_cols :: "string list"
  t_types :: "coltype list"
  t_rows :: "val list list"
  t_pkey :: "string option"

record database =
  tables :: "string \<rightharpoonup> table"
  indexes :: "string list"

datatype colref = Col string | QCol string string

datatype from_clause =
    FromTable string
  | RightJoin string string colref colref

datatype index_method = Gist | Btree

text \<open>
  The statements the loader writes as SQL text, with each interpolated name kept as the
  string the f-string puts there.
  \<^item> \<open>RenameColumn t a b\<close>: \<^verbatim>\<open>ALTER TABLE t RENAME COLUMN a TO b\<close>
  \<^item> \<open>CreateTableAs ine t sel src\<close>: \<^verbatim>\<open>CREATE TABLE [IF NOT EXISTS] t AS SELECT sel FROM src\<close>
  \<^item> \<open>RightJoin l r a b\<close>: \<^verbatim>\<open>l RIGHT JOIN r ON a = b\<close>
  \<^item> \<open>AlterColumnType t c ty u\<close>: \<^verbatim>\<open>ALTER TABLE t ALTER COLUMN c TYPE ty [USING c::u]\<close>
  \<^item> \<open>AddColumn t c ty\<close>: \<^verbatim>\<open>ALTER TABLE t ADD COLUMN c ty\<close>
  \<^item> \<open>CreateIndex n t m c ops\<close>: \<^verbatim>\<open>CREATE INDEX n ON t USING m (c [ops])\<close>; the default
    collation, the ascending order and the default tablespace that the source spells out
    are not kept
  \<^item> \<open>CopyFromStdin t\<close>: \<^verbatim>\<open>COPY t FROM STDIN DELIMITER ',' CSV QUOTE AS '"'\<close>
\<close>

datatype sql_stmt =
    DropTableIfExists string
  | DropTable string
  | RenameColumn string string string
  | CreateTableAs bool string "colref list" from_clause
  | AddPrimaryKey string string
  | AlterColumnType string string coltype "coltype option"
  | CreateTable string "(string \<times> coltype) list"
  | AddColumn string string coltype
  | CreateIndex string string index_method string "string option"
  | CopyFromStdin string

subsection \<open>Names in statement text\<close>

definition db_error :: "string \<Rightarrow> pyerr + 'a" where
  "db_error msg = Inl (DatabaseError, msg)"

text \<open>A table name may carry the default schema; \<^verbatim>\<open>public.t\<close> and \<^verbatim>\<open>t\<close> are one table.\<close>

definition unqualified :: "string \<Rightarrow> string" where
  "unqualified t = (if startswith t ''public.'' then drop 7 t else t)"

definition is_ws :: "char \<Rightarrow> bool" where
  "is_ws c = (c = CHR '' '' \<or> c = CHR 0x0A \<or> c = CHR 0x09 \<or> c = CHR 0x0D \<or> c = CHR 0x0C)"

definition strip_ws :: "string \<Rightarrow> string" where
  "strip_ws s = rev (dropWhile is_ws (rev (dropWhile is_ws s)))"

definition reserved_words :: "string list" where
  "reserved_words =
     [''all'', ''analyse'', ''analyze'', ''and'', ''any'', ''array'', ''as'', ''asc'',
      ''asymmetric'', ''both'', ''case'', ''cast'', ''check'', ''collate'', ''column'',
      ''constraint'', ''create'', ''current_catalog'', ''current_date'', ''current_role'',
      ''current_time'', ''current_timestamp'', ''current_user'', ''default'', ''deferrable'',
      ''desc'', ''distinct'', ''do'', ''else'', ''end'', ''except'', ''false'', ''fetch'',
      ''for'', ''foreign'', ''from'', ''grant'', ''group'', ''having'', ''in'', ''initially'',
      ''intersect'', ''into'', ''lateral'', ''leading'', ''limit'', ''localtime'',
      ''localtimestamp'', ''not'', ''null'', ''offset'', ''on'', ''only'', ''or'', ''order'',
      ''placing'', ''primary'', ''references'', ''returning'', ''select'', ''session_user'',
      ''some'', ''symmetric'', ''system_user'', ''table'', ''then'', ''to'', ''trailing'',
      ''true'', ''union'', ''unique'', ''user'', ''using'', ''variadic'', ''when'', ''where'',
      ''window'', ''with'']"

definition ident_start :: "char \<Rightarrow> bool" where
  "ident_start c =
     ((CHR ''a'' \<le> c \<and> c \<le> CHR ''z'') \<or> (CHR ''A'' \<le> c \<and> c \<le> CHR ''Z'') \<or> c = CHR ''_''
      \<or> CHR 0x80 \<le> c)"

definition ident_part :: "char \<Rightarrow> bool" where
  "ident_part c = (ident_start c \<or> (CHR ''0'' \<le> c \<and> c \<le> CHR ''9'') \<or> c = CHR ''$'')"

text \<open>The engine folds the letters A to Z of an unquoted identifier to lower case.\<close>

definition fold_ascii :: "string \<Rightarrow> string" where
  "fold_ascii s = map (\<lambda>c. if CHR ''A'' \<le> c \<and> c \<le> CHR ''Z'' then plus32 c else c) s"

text \<open>The text between the quotes of a quoted identifier, a doubled quote standing for one.\<close>

fun unquote :: "string \<Rightarrow> string option" where
  "unquote [] = Some []"
| "unquote [c] = (if c = CHR 0x22 then None else Some [c])"
| "unquote (c # d # cs) =
     (if c = CHR 0x22 then (if d = CHR 0x22 then map_option ((#) c) (unquote cs) else None)
      else map_option ((#) c) (unquote (d # cs)))"

text \<open>
  An interpolated name reaches the engine as text inside the statement.  It names something
  when, white space around it dropped (a line feed kept from the header line), it is one
  identifier: letters, digits, underscores and dollar signs, not starting with a digit or a
  dollar sign, not a reserved word, read in lower case; or any non-empty text in double
  quotes, read as it stands.  Any other text makes the statement a syntax error.  Text
  that would form other valid SQL (a Unicode escape, several statements) is not modelled.
\<close>

definition sql_ident :: "string \<Rightarrow> string option" where
  "sql_ident s =
     (let t = strip_ws s in
      if t = [] then None
      else if hd t = CHR 0x22 then
        (if 2 \<le> length t \<and> last t = CHR 0x22 then
           (case unquote (butlast (tl t)) of
              None \<Rightarrow> None
            | Some n \<Rightarrow> (if n = [] then None else Some n))
         else None)
      else if ident_start (hd t) \<and> list_all ident_part (tl t) \<and> fold_ascii t \<notin> set reserved_words
      then Some (fold_ascii t)
      else None)"

definition sql_name :: "string \<Rightarrow> string" where
  "sql_name s = (case sql_ident s of Some n \<Rightarrow> n | None \<Rightarrow> [])"

definition valid_name :: "string \<Rightarrow> bool" where
  "valid_name s = (sql_ident s \<noteq> None)"

definition valid_table :: "string \<Rightarrow> bool" where
  "valid_table t = (length (split_on CHR ''.'' t) \<le> 3 \<and> list_all valid_name (split_on CHR ''.'' t))"

fun colref_parts :: "colref \<Rightarrow> string list \<times> string list" where
  "colref_parts (Col c) = ([], [c])"
| "colref_parts (QCol t c) = ([t], [c])"

fun stmt_tables :: "sql_stmt \<Rightarrow> string list" where
  "stmt_tables (DropTableIfExists t) = [t]"
| "stmt_tables (DropTable t) = [t]"
| "stmt_tables (RenameColumn t a b) = [t]"
| "stmt_tables (CreateTableAs ine t sel src) =
     t # concat (map (fst \<circ> colref_parts) sel)
       @ (case src of
            FromTable u \<Rightarrow> [u]
          | RightJoin l r a b \<Rightarrow> [l, r] @ fst (colref_parts a) @ fst (colref_parts b))"
| "stmt_tables (AddPrimaryKey t c) = [t]"
| "stmt_tables (AlterColumnType t c ty u) = [t]"
| "stmt_tables (CreateTable t cols) = [t]"
| "stmt_tables (AddColumn t c ty) = [t]"
| "stmt_tables (CreateIndex n t m c ops) = [t]"
| "stmt_tables (CopyFromStdin t) = [t]"

fun stmt_columns :: "sql_stmt \<Rightarrow> string list" where
  "stmt_columns (DropTableIfExists t) = []"
| "stmt_columns (DropTable t) = []"
| "stmt_columns (RenameColumn t a b) = [a, b]"
| "stmt_columns (CreateTableAs ine t sel src) =
     concat (map (snd \<circ> colref_parts) sel)
       @ (case src of
            FromTable u \<Rightarrow> []
          | RightJoin l r a b \<Rightarrow> snd (colref_parts a) @ snd (colref_parts b))"
| "stmt_columns (AddPrimaryKey t c) = [c]"
| "stmt_columns (AlterColumnType t c ty u) = [c]"
| "stmt_columns (CreateTable t cols) = map fst cols"
| "stmt_columns (AddColumn t c ty) = [c]"
| "stmt_columns (CreateIndex n t m c ops) = [n, c]"
| "stmt_columns (CopyFromStdin t) = []"

definition well_formed :: "sql_stmt \<Rightarrow> bool" where
  "well_formed s = (list_all valid_table (stmt_tables s) \<and> list_all valid_name (stmt_columns s))"

subsection \<open>Reading values\<close>

fun col_index :: "string list \<Rightarrow> string \<Rightarrow> nat option" where
  "col_index [] c = None"
| "col_index (x # xs) c = (if x = c then Some 0 else map_option Suc (col_index xs c))"

definition cell :: "val list \<Rightarrow> nat \<Rightarrow> val" where
  "cell r i = (if i < length r then r ! i else VNull)"

fun colref_name :: "colref \<Rightarrow> string" where
  "colref_name (Col c) = sql_name c"
| "colref_name (QCol t c) = sql_name c"

text \<open>
  A FROM item is a table name with its columns.  A column reference resolves to the
  position of its item and of its column there.
\<close>

fun resolve_col :: "(string \<times> string list) list \<Rightarrow> colref \<Rightarrow> (nat \<times> nat) option" where
  "resolve_col [] cr = None"
| "resolve_col ((t, cs) # ss) cr =
     (case (case cr of
              QCol q c \<Rightarrow> (if q = t then col_index cs (sql_name c) else None)
            | Col c \<Rightarrow> col_index cs (sql_name c)) of
        Some i \<Rightarrow> Some (0, i)
      | None \<Rightarrow> map_option (\<lambda>(k, i). (Suc k, i)) (resolve_col ss cr))"

text \<open>A joined row holds one row per FROM item, or nothing where the join extends with nulls.\<close>

definition joined_cell :: "val list option list \<Rightarrow> nat \<times> nat \<Rightarrow> val" where
  "joined_cell jr ki =
     (if fst ki < length jr then
        (case jr ! fst ki of None \<Rightarrow> VNull | Some r \<Rightarrow> cell r (snd ki))
      else VNull)"

definition select_cell :: "(string \<times> string list) list \<Rightarrow> val list option list \<Rightarrow> colref \<Rightarrow> val" where
  "select_cell ss jr cr = (case resolve_col ss cr of None \<Rightarrow> VNull | Some ki \<Rightarrow> joined_cell jr ki)"

definition type_at :: "coltype list list \<Rightarrow> nat \<times> nat \<Rightarrow> coltype" where
  "type_at tys ki =
     (if fst ki < length tys \<and> snd ki < length (tys ! fst ki) then tys ! fst ki ! snd ki else TText)"

definition select_type :: "(string \<times> string list) list \<Rightarrow> coltype list list \<Rightarrow> colref \<Rightarrow> coltype" where
  "select_type ss tys cr = (case resolve_col ss cr of None \<Rightarrow> TText | Some ki \<Rightarrow> type_at tys ki)"

definition sql_eq :: "val \<Rightarrow> val \<Rightarrow> bool" where
  "sql_eq a b = (a \<noteq> VNull \<and> b \<noteq> VNull \<and> a = b)"

text \<open>
  \<^verbatim>\<open>L RIGHT JOIN R ON cond\<close>: every row of \<open>R\<close> with each row of \<open>L\<close> that satisfies the
  condition, or once with nulls for \<open>L\<close> when none does.
\<close>

definition right_join_rows ::
  "(val list \<Rightarrow> val list \<Rightarrow> bool) \<Rightarrow> val list list \<Rightarrow> val list list \<Rightarrow> val list option list list" where
  "right_join_rows cond L R =
     concat (map (\<lambda>r. case filter (\<lambda>l. cond l r) L of
                         [] \<Rightarrow> [[None, Some r]]
                       | ms \<Rightarrow> map (\<lambda>l. [Some l, Some r]) ms) R)"

definition join_cond :: "nat \<times> nat \<Rightarrow> nat \<times> nat \<Rightarrow> val list \<Rightarrow> val list \<Rightarrow> bool" where
  "join_cond ka kb l r =
     sql_eq (joined_cell [Some l, Some r] ka) (joined_cell [Some l, Some r] kb)"

definition eval_from ::
  "from_clause \<Rightarrow> database
     \<Rightarrow> pyerr + ((string \<times> string list) list \<times> coltype list list \<times> val list option list list)" where
  "eval_from src db =
     (case src of
        FromTable t \<Rightarrow>
          (case tables db (unqualified t) of
             None \<Rightarrow> db_error (''relation does not exist: '' @ t)
           | Some tb \<Rightarrow> Inr ([(t, t_cols tb)], [t_types tb], map (\<lambda>r. [Some r]) (t_rows tb)))
      | RightJoin l r a b \<Rightarrow>
          (case tables db (unqualified l) of
             None \<Rightarrow> db_error (''relation does not exist: '' @ l)
           | Some lt \<Rightarrow>
               (case tables db (unqualified r) of
                  None \<Rightarrow> db_error (''relation does not exist: '' @ r)
                | Some rt \<Rightarrow>
                    (case resolve_col [(l, t_cols lt), (r, t_cols rt)] a of
                       None \<Rightarrow> db_error (''column does not exist: '' @ colref_name a)
                     | Some ka \<Rightarrow>
                         (case resolve_col [(l, t_cols lt), (r, t_cols rt)] b of
                            None \<Rightarrow> db_error (''column does not exist: '' @ colref_name b)
                          | Some kb \<Rightarrow>
                              Inr ([(l, t_cols lt), (r, t_cols rt)], [t_types lt, t_types rt],
                                   right_join_rows (join_cond ka kb) (t_rows lt) (t_rows rt)))))))"

definition eval_select :: "colref list \<Rightarrow> from_clause \<Rightarrow> database \<Rightarrow> pyerr + table" where
  "eval_select sel src db =
     (case eval_from src db of
        Inl e \<Rightarrow> Inl e
      | Inr (ss, tys, jrs) \<Rightarrow>
          (if list_ex (\<lambda>cr. resolve_col ss cr = None) sel then db_error ''column does not exist''
           else if \<not> distinct (map colref_name sel) then db_error ''column specified more than once''
           else Inr \<lparr>t_cols = map colref_name sel,
                     t_types = map (select_type ss tys) sel,
                     t_rows = map (\<lambda>jr. map (select_cell ss jr) sel) jrs,
                     t_pkey = None\<rparr>))"

subsection \<open>Casts\<close>

definition digit_of :: "char \<Rightarrow> nat option" where
  "digit_of c = map_of (zip ''0123456789'' [0, 1, 2, 3, 4, 5, 6, 7, 8, 9]) c"

fun parse_digits :: "nat \<Rightarrow> string \<Rightarrow> nat option" where
  "parse_digits acc [] = Some acc"
| "parse_digits acc (c # cs) =
     (case digit_of c of None \<Rightarrow> None | Some d \<Rightarrow> parse_digits (10 * acc + d) cs)"

text \<open>Integer input: white space around allowed, an optional sign, then decimal digits.\<close>

definition parse_integer :: "string \<Rightarrow> int option" where
  "parse_integer s =
     (let t = strip_ws s;
          neg = (t \<noteq> [] \<and> hd t = CHR ''-'');
          body = (if t \<noteq> [] \<and> (hd t = CHR ''-'' \<or> hd t = CHR ''+'') then tl t else t)
      in if body = [] then None
         else (case parse_digits 0 body of
                 None \<Rightarrow> None
               | Some n \<Rightarrow> Some (if neg then - int n else int n)))"

definition string_of_int :: "int \<Rightarrow> string" where
  "string_of_int i = (if i < 0 then CHR ''-'' # string_of_nat (nat (- i)) else string_of_nat (nat i))"

definition is_text :: "coltype \<Rightarrow> bool" where
  "is_text ty = (case ty of TVarchar n \<Rightarrow> True | TText \<Rightarrow> True | other \<Rightarrow> False)"

definition is_int :: "coltype \<Rightarrow> bool" where
  "is_int ty = (ty = TInt \<or> ty = TBigint)"

definition is_geo :: "coltype \<Rightarrow> bool" where
  "is_geo ty = (ty = TGeometry \<or> ty = TGeography)"

text \<open>
  Storing text in a character column: text longer than \<^verbatim>\<open>varchar(n)\<close> is an error, unless
  only spaces stand beyond the limit, which are cut.
\<close>

definition fit_text :: "coltype \<Rightarrow> string \<Rightarrow> string option" where
  "fit_text ty s =
     (case ty of
        TVarchar n \<Rightarrow>
          (if length s \<le> n then Some s
           else if list_all (\<lambda>c. c = CHR '' '') (drop n s) then Some (take n s)
           else None)
      | TText \<Rightarrow> Some s
      | other \<Rightarrow> None)"

definition fit_int :: "coltype \<Rightarrow> int \<Rightarrow> int option" where
  "fit_int ty i =
     (case ty of
        TInt \<Rightarrow> (if - 2147483648 \<le> i \<and> i \<le> 2147483647 then Some i else None)
      | TBigint \<Rightarrow> (if - 9223372036854775808 \<le> i \<and> i \<le> 9223372036854775807 then Some i else None)
      | other \<Rightarrow> None)"

text \<open>
  The conversion \<^verbatim>\<open>ALTER COLUMN ... TYPE\<close> applies without \<^verbatim>\<open>USING\<close>, from the column's type to
  the new one: within the character types, within the integer types, from integers to
  text, within the spatial types.  Text does not convert to an integer by itself.
\<close>

definition assign_cast :: "coltype \<Rightarrow> coltype \<Rightarrow> val \<Rightarrow> val option" where
  "assign_cast old new v =
     (case v of
        VNull \<Rightarrow> Some VNull
      | VText s \<Rightarrow>
          (if is_text old \<and> is_text new then map_option VText (fit_text new s)
           else if is_geo old \<and> is_geo new then Some (VText s)
           else None)
      | VInt i \<Rightarrow>
          (if is_int old \<and> is_int new then map_option VInt (fit_int new i)
           else if is_int old \<and> is_text new then map_option VText (fit_text new (string_of_int i))
           else None))"

text \<open>The cast \<^verbatim>\<open>c::u\<close> written in a \<^verbatim>\<open>USING\<close> clause: text is read as an integer, or cut to length.\<close>

definition explicit_cast :: "coltype \<Rightarrow> coltype \<Rightarrow> val \<Rightarrow> val option" where
  "explicit_cast old u v =
     (case v of
        VNull \<Rightarrow> Some VNull
      | VText s \<Rightarrow>
          (if is_text old \<and> is_int u then
             (case parse_integer s of None \<Rightarrow> None | Some i \<Rightarrow> map_option VInt (fit_int u i))
           else if is_text old \<and> is_text u then
             Some (VText (case u of TVarchar n \<Rightarrow> take n s | other \<Rightarrow> s))
           else assign_cast old u v)
      | VInt i \<Rightarrow> assign_cast old u v)"

definition column_cast :: "coltype \<Rightarrow> coltype \<Rightarrow> coltype option \<Rightarrow> val \<Rightarrow> val option" where
  "column_cast old new using v =
     (case using of
        None \<Rightarrow> assign_cast old new v
      | Some u \<Rightarrow> (case explicit_cast old u v of None \<Rightarrow> None | Some v' \<Rightarrow> assign_cast u new v'))"

fun cast_rows :: "(val \<Rightarrow> val option) \<Rightarrow> nat \<Rightarrow> val list list \<Rightarrow> val list list option" where
  "cast_rows f i [] = Some []"
| "cast_rows f i (r # rs) =
     (case f (cell r i) of
        None \<Rightarrow> None
      | Some v \<Rightarrow> map_option ((#) (r[i := v])) (cast_rows f i rs))"

text \<open>A field of a delimited record read into a column by \<^verbatim>\<open>COPY\<close>; an empty field is null.\<close>

definition input_val :: "coltype \<Rightarrow> string option \<Rightarrow> val option" where
  "input_val ty fld =
     (case fld of
        None \<Rightarrow> Some VNull
      | Some s \<Rightarrow>
          (if is_text ty then map_option VText (fit_text ty s)
           else if is_int ty then
             (case parse_integer s of None \<Rightarrow> None | Some i \<Rightarrow> map_option VInt (fit_int ty i))
           else None))"

fun input_row :: "coltype list \<Rightarrow> string option list \<Rightarrow> val list option" where
  "input_row [] [] = Some []"
| "input_row (ty # tys) (f # fs) =
     (case input_val ty f of
        None \<Rightarrow> None
      | Some v \<Rightarrow> map_option ((#) v) (input_row tys fs))"
| "input_row tys fs = None"

fun input_rows :: "coltype list \<Rightarrow> string option list list \<Rightarrow> val list list option" where
  "input_rows tys [] = Some []"
| "input_rows tys (r # rs) =
     (case input_row tys r of
        None \<Rightarrow> None
      | Some v \<Rightarrow> map_option ((#) v) (input_rows tys rs))"

subsection \<open>Statements\<close>

definition put_table :: "string \<Rightarrow> table \<Rightarrow> database \<Rightarrow> database" where
  "put_table t tb db = db\<lparr>tables := (tables db)(unqualified t \<mapsto> tb)\<rparr>"

definition del_table :: "string \<Rightarrow> database \<Rightarrow> database" where
  "del_table t db = db\<lparr>tables := (tables db)(unqualified t := None)\<rparr>"

definition stored_type :: "coltype \<Rightarrow> coltype" where
  "stored_type ty = (if ty = TBigserial then TBigint else ty)"

fun exec_stmt :: "sql_stmt \<Rightarrow> database \<Rightarrow> pyerr + database" where
  "exec_stmt (DropTableIfExists t) db = Inr (del_table t db)"
| "exec_stmt (DropTable t) db =
     (case tables db (unqualified t) of
        None \<Rightarrow> db_error (''table does not exist: '' @ t)
      | Some tb \<Rightarrow> Inr (del_table t db))"
| "exec_stmt (RenameColumn t a b) db =
     (case tables db (unqualified t) of
        None \<Rightarrow> db_error (''relation does not exist: '' @ t)
      | Some tb \<Rightarrow>
          (if sql_name a \<notin> set (t_cols tb) then db_error (''column does not exist: '' @ a)
           else if sql_name b \<in> set (t_cols tb) then db_error (''column already exists: '' @ b)
           else Inr (put_table t
                  (tb\<lparr>t_cols := map (\<lambda>c. if c = sql_name a then sql_name b else c) (t_cols tb),
                      t_pkey := map_option (\<lambda>k. if k = sql_name a then sql_name b else k) (t_pkey tb)\<rparr>)
                  db)))"
| "exec_stmt (CreateTableAs if_not_exists t sel src) db =
     (case tables db (unqualified t) of
        Some tb \<Rightarrow> (if if_not_exists then Inr db else db_error (''relation already exists: '' @ t))
      | None \<Rightarrow>
          (case eval_select sel src db of
             Inl e \<Rightarrow> Inl e
           | Inr tb \<Rightarrow> Inr (put_table t tb db)))"
| "exec_stmt (AddPrimaryKey t c) db =
     (case tables db (unqualified t) of
        None \<Rightarrow> db_error (''relation does not exist: '' @ t)
      | Some tb \<Rightarrow>
          (case col_index (t_cols tb) (sql_name c) of
             None \<Rightarrow> db_error (''column does not exist: '' @ c)
           | Some i \<Rightarrow>
               (if t_pkey tb \<noteq> None then db_error ''multiple primary keys''
                else if VNull \<in> set (map (\<lambda>r. cell r i) (t_rows tb)) then db_error ''null key''
                else if \<not> distinct (map (\<lambda>r. cell r i) (t_rows tb)) then db_error ''duplicate key''
                else Inr (put_table t (tb\<lparr>t_pkey := Some (sql_name c)\<rparr>) db))))"
| "exec_stmt (AlterColumnType t c ty using) db =
     (case tables db (unqualified t) of
        None \<Rightarrow> db_error (''relation does not exist: '' @ t)
      | Some tb \<Rightarrow>
          (case col_index (t_cols tb) (sql_name c) of
             None \<Rightarrow> db_error (''column does not exist: '' @ c)
           | Some i \<Rightarrow>
               (case cast_rows (column_cast (type_at [t_types tb] (0, i)) ty using) i (t_rows tb) of
                  None \<Rightarrow> db_error (''cannot cast column: '' @ c)
                | Some rs \<Rightarrow>
                    Inr (put_table t (tb\<lparr>t_types := (t_types tb)[i := ty], t_rows := rs\<rparr>) db))))"
| "exec_stmt (CreateTable t cols) db =
     (case tables db (unqualified t) of
        Some tb \<Rightarrow> db_error (''relation already exists: '' @ t)
      | None \<Rightarrow>
          (if \<not> distinct (map (sql_name \<circ> fst) cols) then db_error ''column specified more than once''
           else Inr (put_table t
                  \<lparr>t_cols = map (sql_name \<circ> fst) cols, t_types = map (stored_type \<circ> snd) cols,
                   t_rows = [], t_pkey = None\<rparr> db)))"
| "exec_stmt (AddColumn t c ty) db =
     (case tables db (unqualified t) of
        None \<Rightarrow> db_error (''relation does not exist: '' @ t)
      | Some tb \<Rightarrow>
          (if sql_name c \<in> set (t_cols tb) then db_error (''column already exists: '' @ c)
           else Inr (put_table t
                  (tb\<lparr>t_cols := t_cols tb @ [sql_name c],
                      t_types := t_types tb @ [stored_type ty],
                      t_rows := map (\<lambda>(k, r). r @ [if ty = TBigserial then VInt (int k + 1) else VNull])
                                  (enumerate 0 (t_rows tb))\<rparr>)
                  db)))"
| "exec_stmt (CreateIndex n t m c ops) db =
     (case tables db (unqualified t) of
        None \<Rightarrow> db_error (''relation does not exist: '' @ t)
      | Some tb \<Rightarrow>
          (if sql_name c \<notin> set (t_cols tb) then db_error (''column does not exist: '' @ c)
           else if sql_name n \<in> set (indexes db) then db_error (''relation already exists: '' @ n)
           else Inr (db\<lparr>indexes := indexes db @ [sql_name n]\<rparr>)))"
| "exec_stmt (CopyFromStdin t) db = db_error ''COPY FROM STDIN needs a data stream''"

text \<open>A statement whose names do not read as names is refused before it does anything.\<close>

definition run_stmt :: "sql_stmt \<Rightarrow> database \<Rightarrow> pyerr + database" where
  "run_stmt s db = (if well_formed s then exec_stmt s db else db_error ''syntax error'')"

section \<open>The world outside the program\<close>

text \<open>
  A file is modelled by what its reader in this program gets from it: the characters of a
  text file; the entries of an archive in \<^verbatim>\<open>namelist()\<close> order; for a shapefile or an
  attribute file, the layer the converter decodes (its fields as the converter names and
  types them, and its features, each a value per field); for a street file, the records of
  fields that the CSV reader of \<^verbatim>\<open>COPY\<close> decodes, an empty unquoted field being no value.
\<close>

datatype content =
    Text string
  | Zip "(string \<times> content) list"
  | Layer "(string \<times> coltype) list" "val list list"
  | Csv "string option list list"

text \<open>
  \<open>Ogr2ogr path t nlt srs\<close> is the command line
  \<^verbatim>\<open>ogr2ogr -f "PostgreSQL" PG:"..." "<vsizip path>" -nln t [-nlt nlt] -append -progress [-t_srs srs]\<close>;
  \<open>path\<close> lists the components joined under the working directory.
\<close>

datatype command = Ogr2ogr "string list" string "string option" "string option"

datatype event = SqlExec sql_stmt | System command | CopyExpert sql_stmt string

record world =
  w_files :: "(string \<times> content) list"
  w_dir_ok :: bool
  w_drive :: "string \<Rightarrow> string \<Rightarrow> (string \<times> content) list option"
  w_db :: database
  w_db_online :: bool
  w_open_conns :: nat
  w_stdout :: "string list"
  w_log :: "event list"

type_synonym 'a py = "world \<Rightarrow> (pyerr + 'a) \<times> world"

type_synonym sql_exec = "sql_stmt list list \<Rightarrow> unit py"

definition py_print :: "string \<Rightarrow> world \<Rightarrow> world" where
  "py_print s w = w\<lparr>w_stdout := w_stdout w @ [s]\<rparr>"

text \<open>
  The value of \<^verbatim>\<open>base_path\<close>: a \<^verbatim>\<open>str\<close>, or a path object of \<^verbatim>\<open>pathlib\<close>.  The operator
  \<^verbatim>\<open>/\<close> joins a name to a path object and raises TypeError on a \<^verbatim>\<open>str\<close>.
\<close>

datatype pyval = PyStr string | PyPath string

definition truediv :: "pyval \<Rightarrow> string \<Rightarrow> pyerr + pyval" where
  "truediv a b =
     (case a of
        PyPath d \<Rightarrow> Inr (PyPath (d @ ''/'' @ b))
      | PyStr s \<Rightarrow> Inl (TypeError, ''unsupported operand type(s) for /: str and str''))"

text \<open>An entry by name; where a name occurs twice the later entry is the one opened.\<close>

definition lookup_entry :: "(string \<times> content) list \<Rightarrow> string \<Rightarrow> content option" where
  "lookup_entry es n = map_of (rev es) n"

definition open_zip :: "content option \<Rightarrow> string \<Rightarrow> pyerr + (string \<times> content) list" where
  "open_zip c n =
     (case c of
        None \<Rightarrow> Inl (FileNotFoundError, n)
      | Some (Zip es) \<Rightarrow> Inr es
      | Some other \<Rightarrow> Inl (BadZipFile, n))"

definition attr :: "string \<Rightarrow> 'a option \<Rightarrow> pyerr + 'a" where
  "attr name v = (case v of None \<Rightarrow> Inl (AttributeError, name) | Some x \<Rightarrow> Inr x)"

subsection \<open>The converter\<close>

fun resolve_path :: "(string \<times> content) list \<Rightarrow> string list \<Rightarrow> content option" where
  "resolve_path es [] = None"
| "resolve_path es [n] = lookup_entry es n"
| "resolve_path es (n # ns) =
     (case lookup_entry es n of Some (Zip es') \<Rightarrow> resolve_path es' ns | _ \<Rightarrow> None)"

text \<open>
  The converter in append mode: it creates the layer's table with its own serial key
  \<^verbatim>\<open>ogc_fid\<close> when the table is absent, and appends the features, numbered on, when the
  table has the layer's columns.
\<close>

definition ogr_append :: "string \<Rightarrow> (string \<times> coltype) list \<Rightarrow> val list list \<Rightarrow> database \<Rightarrow> database" where
  "ogr_append t flds rows db =
     (case tables db (unqualified t) of
        None \<Rightarrow>
          put_table t \<lparr>t_cols = ''ogc_fid'' # map fst flds,
                       t_types = TInt # map snd flds,
                       t_rows = map (\<lambda>(k, r). VInt (int k) # r) (enumerate 1 rows),
                       t_pkey = Some ''ogc_fid''\<rparr> db
      | Some tb \<Rightarrow>
          (if t_cols tb = ''ogc_fid'' # map fst flds then
             put_table t
               (tb\<lparr>t_rows := t_rows tb
                      @ map (\<lambda>(k, r). VInt (int k) # r) (enumerate (Suc (length (t_rows tb))) rows)\<rparr>) db
           else db))"

text \<open>
  \<^verbatim>\<open>os.system(command)\<close>: the exit status is not read, so the call never raises; a source
  that is not a layer, or a store that is down, leaves the store as it was.
\<close>

fun os_system :: "command \<Rightarrow> world \<Rightarrow> world" where
  "os_system (Ogr2ogr path t nlt srs) w =
     (if \<not> w_db_online w then w\<lparr>w_log := w_log w @ [System (Ogr2ogr path t nlt srs)]\<rparr>
      else (case resolve_path (w_files w) path of
              Some (Layer flds rows) \<Rightarrow>
                w\<lparr>w_db := ogr_append t flds rows (w_db w),
                  w_log := w_log w @ [System (Ogr2ogr path t nlt srs)]\<rparr>
            | _ \<Rightarrow> w\<lparr>w_log := w_log w @ [System (Ogr2ogr path t nlt srs)]\<rparr>))"

subsection \<open>The statement batch primitive\<close>

fun exec_stmts :: "sql_stmt list \<Rightarrow> unit py" where
  "exec_stmts [] w = (Inr (), w)"
| "exec_stmts (s # ss) w =
     (case run_stmt s (w_db w) of
        Inl e \<Rightarrow> (Inl e, w)
      | Inr db' \<Rightarrow> exec_stmts ss (w\<lparr>w_db := db', w_log := w_log w @ [SqlExec s]\<rparr>))"

text \<open>
  Modelled from the spec: \<^verbatim>\<open>exec_sql_statements\<close> is called by every stage and defined
  nowhere in the module.  The spec's Relational Loader gives its contract: it opens a
  connection of its own and executes the ordered batch, surfacing the first failure to the
  caller and running none of the statements after it.
\<close>

definition exec_sql_statements :: sql_exec where
  "exec_sql_statements cmds w =
     (if w_db_online w then exec_stmts (concat cmds) w
      else (Inl (OperationalError, ''could not connect to server''), w))"

text \<open>
  A call through a global name.  \<open>binding\<close> is what the name is bound to in the module's
  globals at the time of the call, if anything.
\<close>

definition call_global :: "string \<Rightarrow> ('a \<Rightarrow> 'b py) option \<Rightarrow> 'a \<Rightarrow> 'b py" where
  "call_global name binding arg w =
     (case binding of
        None \<Rightarrow> (Inl (NameError, ''name '' @ name @ '' is not defined''), w)
      | Some f \<Rightarrow> f arg w)"

section \<open>copy_from_csv\<close>

text \<open>
  \<^verbatim>\<open>cursor.copy_expert(sql_command, csv_file)\<close>: the records of the file object are appended
  to the table when every record has one field per column and every field can be stored
  in its column; otherwise the statement fails and appends nothing.
\<close>

definition copy_expert :: "sql_stmt \<Rightarrow> string \<times> content \<Rightarrow> database \<Rightarrow> pyerr + database" where
  "copy_expert sql_command csv_file db =
     (case sql_command of
        CopyFromStdin t \<Rightarrow>
          (if \<not> valid_table t then db_error ''syntax error''
           else
             (case tables db (unqualified t) of
                None \<Rightarrow> db_error (''relation does not exist: '' @ t)
              | Some tb \<Rightarrow>
                  (case snd csv_file of
                     Csv records \<Rightarrow>
                       (case input_rows (t_types tb) records of
                          None \<Rightarrow> db_error ''invalid input for the table''
                        | Some rows \<Rightarrow> Inr (put_table t (tb\<lparr>t_rows := t_rows tb @ rows\<rparr>) db))
                   | other \<Rightarrow> db_error ''malformed input'')))
      | other \<Rightarrow> db_error ''not a COPY statement'')"

text \<open>
  The \<^verbatim>\<open>try\<close> block.  It yields the exception it ends with, if any, the local variable
  \<^verbatim>\<open>conn\<close> (\<open>None\<close> while it is unbound, else whether the handle has been closed), and the
  world.  \<^verbatim>\<open>psycopg2.connect\<close> raises when the server cannot be reached, before \<^verbatim>\<open>conn\<close>
  is assigned.
\<close>

definition copy_try :: "sql_stmt \<Rightarrow> string \<times> content \<Rightarrow> world \<Rightarrow> pyerr option \<times> bool option \<times> world" where
  "copy_try sql_command csv_file w =
     (if \<not> w_db_online w then (Some (OperationalError, ''could not connect to server''), None, w)
      else
        (let w1 = w\<lparr>w_open_conns := Suc (w_open_conns w),
                    w_log := w_log w @ [CopyExpert sql_command (fst csv_file)]\<rparr>
         in case copy_expert sql_command csv_file (w_db w1) of
              Inl e \<Rightarrow> (Some e, Some False, w1)
            | Inr db' \<Rightarrow> (None, Some True, w1\<lparr>w_db := db', w_open_conns := w_open_conns w1 - 1\<rparr>)))"

text \<open>
  \<^verbatim>\<open>except (Exception, psycopg2.DatabaseError) as error: print(error)\<close>, then
  \<^verbatim>\<open>finally: if conn is not None: conn.close()\<close>.  Reading \<^verbatim>\<open>conn\<close> while it is unbound
  raises UnboundLocalError, and nothing encloses the \<^verbatim>\<open>finally\<close> block.  Closing a closed
  handle does nothing.
\<close>

definition copy_from_csv :: "sql_stmt \<Rightarrow> string \<times> content \<Rightarrow> unit py" where
  "copy_from_csv sql_command csv_file w =
     (case copy_try sql_command csv_file w of
        (caught, conn, w1) \<Rightarrow>
          (let w2 = (case caught of None \<Rightarrow> w1 | Some e \<Rightarrow> py_print (snd e) w1)
           in case conn of
                None \<Rightarrow>
                  (Inl (UnboundLocalError,
                        ''cannot access local variable conn where it is not associated with a value''), w2)
              | Some closed \<Rightarrow>
                  (Inr (), if closed then w2 else w2\<lparr>w_open_conns := w_open_conns w2 - 1\<rparr>)))"


section \<open>PostcodeParser\<close>

definition DATASETS_DIR :: string where
  "DATASETS_DIR = ''{path to dataset}''"

definition GDRIVE_TEAM_ID :: string where
  "GDRIVE_TEAM_ID = ''gdrive id for the team id that data are downloaded from''"

definition GDRIVE_FOLDER_ID :: string where
  "GDRIVE_FOLDER_ID = ''gdrive id for the folder containing postcode data''"

text \<open>
  The object's attributes.  \<^verbatim>\<open>zip_file\<close> and \<^verbatim>\<open>header_file\<close> exist only once
  \<^verbatim>\<open>prepare\<close> has set them.  \<^verbatim>\<open>base_path\<close> is the value of \<^verbatim>\<open>DATASETS_DIR\<close>, which the
  module as it stands binds to a \<^verbatim>\<open>str\<close>; the directory it names is the one whose listing
  is \<open>w_files\<close>.
\<close>

record parser =
  base_path :: pyval
  staging_table :: string
  geom_table :: string
  target_table :: string
  vstreet_table :: string
  vstreet_target :: string
  folder_id :: string
  team_drive_id :: string
  zip_file :: "string option"
  header_file :: "string option"

definition PostcodeParser_init :: parser where
  "PostcodeParser_init =
     \<lparr>base_path = PyStr DATASETS_DIR,
      staging_table = ''postcode_staging'',
      geom_table = ''postcode_polygons'',
      target_table = ''postcode'',
      vstreet_table = ''vstreet_table'',
      vstreet_target = ''vstreetlookup'',
      folder_id = GDRIVE_FOLDER_ID,
      team_drive_id = GDRIVE_TEAM_ID,
      zip_file = None,
      header_file = None\<rparr>"

subsection \<open>prepare\<close>

definition show_val :: "pyval \<Rightarrow> string" where
  "show_val v = (case v of PyStr s \<Rightarrow> s | PyPath d \<Rightarrow> d)"

definition os_makedirs :: "pyval \<Rightarrow> unit py" where
  "os_makedirs path w =
     (if w_dir_ok w then (Inr (), w) else (Inl (OSError, show_val path), w))"

definition write_file :: "string \<Rightarrow> content \<Rightarrow> (string \<times> content) list \<Rightarrow> (string \<times> content) list" where
  "write_file n c es =
     (if n \<in> set (map fst es) then map (\<lambda>(k, v). if k = n then (k, c) else (k, v)) es
      else es @ [(n, c)])"

fun download_loop :: "pyval \<Rightarrow> (string \<times> content) list \<Rightarrow> unit py" where
  "download_loop dest_path [] w = (Inr (), w)"
| "download_loop dest_path (file_i # rest) w =
     (case truediv dest_path (fst file_i) of
        Inl e \<Rightarrow> (Inl e, w)
      | Inr path \<Rightarrow>
          download_loop dest_path rest (w\<lparr>w_files := write_file (fst file_i) (snd file_i) (w_files w)\<rparr>))"

definition download_gdrive_folder :: "pyval \<Rightarrow> pyval \<Rightarrow> pyval \<Rightarrow> unit py" where
  "download_gdrive_folder folder dest_path team_drive w =
     (case w_drive w (show_val folder) (show_val team_drive) of
        None \<Rightarrow> (Inl (OSError, ''google drive''), w)
      | Some gdrive_list \<Rightarrow> download_loop dest_path gdrive_list w)"

definition download_gdrive_folder_params :: "string list" where
  "download_gdrive_folder_params = [''folder_id'', ''dest_path'', ''team_drive_id'']"

text \<open>A positional call of \<^verbatim>\<open>download_gdrive_folder\<close> with the given arguments.\<close>

definition call_download_gdrive_folder :: "pyval list \<Rightarrow> unit py" where
  "call_download_gdrive_folder args w =
     (case call_positional ''download_gdrive_folder'' download_gdrive_folder_params args of
        Inl e \<Rightarrow> (Inl e, w)
      | Inr as \<Rightarrow> download_gdrive_folder (as ! 0) (as ! 1) (as ! 2) w)"

fun scan_listing :: "string list \<Rightarrow> parser \<Rightarrow> parser" where
  "scan_listing [] p = p"
| "scan_listing (z # zs) p =
     scan_listing zs
       (let p1 = (if endswith z ''.zip'' then p\<lparr>zip_file := Some z\<rparr> else p)
        in if endswith z ''.csv'' then p1\<lparr>header_file := Some z\<rparr> else p1)"

definition prepare :: "parser \<Rightarrow> world \<Rightarrow> (pyerr + bool \<times> string) \<times> parser \<times> world" where
  "prepare p w =
     (case os_makedirs (base_path p) w of
        (Inl e, w1) \<Rightarrow> (Inl e, p, w1)
      | (Inr u, w1) \<Rightarrow>
          (case call_download_gdrive_folder [PyStr (folder_id p), base_path p] w1 of
             (Inl e, w2) \<Rightarrow> (Inl e, p, w2)
           | (Inr u, w2) \<Rightarrow> (Inr (False, []), scan_listing (map fst (w_files w2)) p, w2)))"

subsection \<open>parse_polys\<close>

text \<open>
  The loop over the shapefiles of one nested archive: the path of the shapefile is joined
  under \<^verbatim>\<open>SHP_DIR\<close>, and the converter is run on it.
\<close>

fun shp_loop :: "parser \<Rightarrow> pyval \<Rightarrow> string \<Rightarrow> string \<Rightarrow> string list \<Rightarrow> unit py" where
  "shp_loop p SHP_DIR zf z_file [] w = (Inr (), w)"
| "shp_loop p SHP_DIR zf z_file (file # files) w =
     (case truediv SHP_DIR file of
        Inl e \<Rightarrow> (Inl e, w)
      | Inr FILE_PATH \<Rightarrow>
          shp_loop p SHP_DIR zf z_file files
            (os_system (Ogr2ogr [zf, z_file, file] (staging_table p) (Some ''MULTIPOLYGON'') (Some ''EPSG:4326''))
               (py_print (''Parsing Postcode >> '' @ file) w)))"

text \<open>\<^verbatim>\<open>a / b / c\<close>.\<close>

definition truediv2 :: "pyval \<Rightarrow> string \<Rightarrow> string \<Rightarrow> pyerr + pyval" where
  "truediv2 a b c = (case truediv a b of Inl e \<Rightarrow> Inl e | Inr ab \<Rightarrow> truediv ab c)"

text \<open>
  The loop over the nested archives.  Its body joins \<^verbatim>\<open>SHP_DIR\<close>, opens the nested archive,
  lists its shapefiles, calls \<^verbatim>\<open>exec_sql_statements\<close> on the one-statement batch that drops
  the staging table, and then converts each shapefile.
\<close>

fun nested_loop ::
  "sql_exec option \<Rightarrow> parser \<Rightarrow> string \<Rightarrow> (string \<times> content) list \<Rightarrow> string list \<Rightarrow> unit py" where
  "nested_loop ex p zf z [] w = (Inr (), w)"
| "nested_loop ex p zf z (z_file # zs) w =
     (case truediv2 (base_path p) zf z_file of
        Inl e \<Rightarrow> (Inl e, w)
      | Inr SHP_DIR \<Rightarrow>
          (case open_zip (lookup_entry z z_file) z_file of
             Inl e \<Rightarrow> (Inl e, w)
           | Inr z_shp \<Rightarrow>
               (case call_global ''exec_sql_statements'' ex [[DropTableIfExists (staging_table p)]] w of
                  (Inl e, w1) \<Rightarrow> (Inl e, w1)
                | (Inr u, w1) \<Rightarrow>
                    (case shp_loop p SHP_DIR zf z_file
                            (filter (\<lambda>f. endswith f ''.shp'') (map fst z_shp)) w1 of
                       (Inl e, w2) \<Rightarrow> (Inl e, w2)
                     | (Inr u, w2) \<Rightarrow> nested_loop ex p zf z zs w2))))"

text \<open>
  Opening the top-level archive at \<^verbatim>\<open>self.base_path / self.zip_file\<close>: the attribute is read,
  the path is joined, the file is opened as an archive.
\<close>

definition open_archive :: "parser \<Rightarrow> world \<Rightarrow> pyerr + string \<times> (string \<times> content) list" where
  "open_archive p w =
     (case attr ''zip_file'' (zip_file p) of
        Inl e \<Rightarrow> Inl e
      | Inr zf \<Rightarrow>
          (case truediv (base_path p) zf of
             Inl e \<Rightarrow> Inl e
           | Inr path \<Rightarrow>
               (case open_zip (lookup_entry (w_files w) zf) zf of
                  Inl e \<Rightarrow> Inl e
                | Inr z \<Rightarrow> Inr (zf, z))))"

text \<open>The \<^verbatim>\<open>with ZipFile(...)\<close> block of \<^verbatim>\<open>parse_polys\<close>.\<close>

definition parse_polys_load :: "sql_exec option \<Rightarrow> parser \<Rightarrow> unit py" where
  "parse_polys_load ex p w =
     (case open_archive p w of
        Inl e \<Rightarrow> (Inl e, w)
      | Inr (zf, z) \<Rightarrow> nested_loop ex p zf z (filter (\<lambda>f. endswith f ''.zip'') (map fst z)) w)"

definition polys_commands :: "parser \<Rightarrow> sql_stmt list list" where
  "polys_commands p =
     [[RenameColumn (staging_table p) ''ogc_fid'' ''id''],
      [RenameColumn (staging_table p) ''wkb_geometry'' ''polygon''],
      [CreateTableAs True (geom_table p)
         [Col ''id'', Col ''postcode'', Col ''pc_area'', Col ''polygon''] (FromTable (staging_table p))],
      [AddPrimaryKey (geom_table p) ''id''],
      [AlterColumnType (geom_table p) ''polygon'' TGeography None],
      [DropTable (staging_table p)]]"

definition parse_polys :: "sql_exec option \<Rightarrow> parser \<Rightarrow> unit py" where
  "parse_polys ex p w =
     (case parse_polys_load ex p w of
        (Inl e, w1) \<Rightarrow> (Inl e, w1)
      | (Inr u, w1) \<Rightarrow>
          call_global ''exec_sql_statements'' ex (polys_commands p) (py_print ''renaming columns...'' w1))"

subsection \<open>parse_info\<close>

text \<open>\<^verbatim>\<open>header_file.readlines()[-1].split(',')\<close> on the text of the header file.\<close>

definition header_column_names :: "string \<Rightarrow> pyerr + string list" where
  "header_column_names txt =
     (case readlines txt of
        [] \<Rightarrow> Inl (IndexError, ''list index out of range'')
      | l # ls \<Rightarrow> Inr (split_on CHR '','' (last (l # ls))))"

definition read_header :: "parser \<Rightarrow> world \<Rightarrow> pyerr + string list" where
  "read_header p w =
     (case attr ''header_file'' (header_file p) of
        Inl e \<Rightarrow> Inl e
      | Inr hf \<Rightarrow>
          (case truediv (base_path p) hf of
             Inl e \<Rightarrow> Inl e
           | Inr path \<Rightarrow>
               (case lookup_entry (w_files w) hf of
                  None \<Rightarrow> Inl (FileNotFoundError, hf)
                | Some (Text s) \<Rightarrow> header_column_names s
                | Some other \<Rightarrow> Inl (UnicodeDecodeError, hf))))"

fun csv_loop :: "parser \<Rightarrow> string \<Rightarrow> string list \<Rightarrow> unit py" where
  "csv_loop p zf [] w = (Inr (), w)"
| "csv_loop p zf (csv_file # files) w =
     (case truediv2 (base_path p) zf csv_file of
        Inl e \<Rightarrow> (Inl e, w)
      | Inr FILE_PATH \<Rightarrow>
          csv_loop p zf files
            (os_system (Ogr2ogr [zf, csv_file] (staging_table p) None None)
               (py_print (''Parsing Postcode >> '' @ csv_file) w)))"

definition CSV_FILES :: "(string \<times> content) list \<Rightarrow> string list" where
  "CSV_FILES z =
     filter (\<lambda>f. endswith f ''.csv'' \<and> startswith f ''Code-Point/Data/CSV'') (map fst z)"

definition excluded_columns :: "string list" where
  "excluded_columns =
     [''postcode'', ''eastings'', ''northings'', ''delivery_points_used_to_create_the_cplc'']"

text \<open>
  The loop \<^verbatim>\<open>for j in range(len(column_names))\<close>.  It extends the tuple of rename
  statements and the select list \<^verbatim>\<open>fields\<close> (here \<open>select_list\<close>), which is kept as the list of its
  items, which the source joins with commas.
\<close>

fun plan_loop ::
  "parser \<Rightarrow> string list \<Rightarrow> nat list \<Rightarrow> sql_stmt list list \<times> colref list \<Rightarrow> sql_stmt list list \<times> colref list" where
  "plan_loop p column_names [] acc = acc"
| "plan_loop p column_names (j # js) (cmds, select_list) =
     plan_loop p column_names js
       (cmds @ [[RenameColumn (staging_table p) (''field_'' @ string_of_nat (j + 1)) (lower (column_names ! j))]],
        if lower (column_names ! j) \<notin> set excluded_columns
        then select_list @ [QCol (staging_table p) (lower (column_names ! j))]
        else select_list)"

definition column_mapping_plan :: "parser \<Rightarrow> string list \<Rightarrow> sql_stmt list list \<times> colref list" where
  "column_mapping_plan p column_names =
     (case plan_loop p column_names [0..<length column_names]
             ([], [QCol (geom_table p) ''id'', QCol (geom_table p) ''postcode'', QCol (geom_table p) ''pc_area''])
      of (cmds, select_list) \<Rightarrow> (cmds, select_list @ [QCol (geom_table p) ''polygon'']))"

definition create_target :: "parser \<Rightarrow> colref list \<Rightarrow> sql_stmt" where
  "create_target p select_list =
     CreateTableAs False (target_table p) select_list
       (RightJoin (staging_table p) (geom_table p)
          (QCol (geom_table p) ''postcode'') (QCol (staging_table p) ''postcode''))"

definition retype_commands :: "parser \<Rightarrow> sql_stmt list list" where
  "retype_commands p =
     [[AlterColumnType (target_table p) ''positional_quality_indicator'' TInt (Some TInt)],
      [AlterColumnType (target_table p) ''po_box_indicator'' (TVarchar 2) None],
      [AlterColumnType (target_table p) ''total_number_of_delivery_points'' TInt (Some TInt)],
      [AlterColumnType (target_table p) ''domestic_delivery_points'' TInt (Some TInt)],
      [AlterColumnType (target_table p) ''non_domestic_delivery_points'' TInt (Some TInt)],
      [AlterColumnType (target_table p) ''po_box_delivery_points'' TInt (Some TInt)],
      [AlterColumnType (target_table p) ''matched_address_premises'' TInt (Some TInt)],
      [AlterColumnType (target_table p) ''unmatched_delivery_points'' TInt (Some TInt)],
      [AlterColumnType (target_table p) ''country_code'' (TVarchar 16) None],
      [AlterColumnType (target_table p) ''nhs_regional_ha_code'' (TVarchar 16) None],
      [AlterColumnType (target_table p) ''nhs_ha_code'' (TVarchar 16) None],
      [AlterColumnType (target_table p) ''admin_county_code'' (TVarchar 16) None],
      [AlterColumnType (target_table p) ''admin_district_code'' (TVarchar 16) None],
      [AlterColumnType (target_table p) ''admin_ward_code'' (TVarchar 16) None],
      [AlterColumnType (target_table p) ''postcode_type'' (TVarchar 2) None]]"

text \<open>The batch \<^verbatim>\<open>parse_info\<close> hands to \<^verbatim>\<open>exec_sql_statements\<close> after the imports.\<close>

definition info_commands :: "parser \<Rightarrow> string list \<Rightarrow> sql_stmt list list" where
  "info_commands p column_names =
     (case column_mapping_plan p column_names of
        (cmds, select_list) \<Rightarrow>
          cmds
          @ [[DropTableIfExists (target_table p)], [create_target p select_list]]
          @ retype_commands p
          @ [[AddPrimaryKey (target_table p) ''id''],
             [DropTable (geom_table p)],
             [DropTable (staging_table p)]])"

definition parse_info :: "sql_exec option \<Rightarrow> parser \<Rightarrow> unit py" where
  "parse_info ex p w =
     (case read_header p w of
        Inl e \<Rightarrow> (Inl e, w)
      | Inr column_names \<Rightarrow>
          (case open_archive p w of
             Inl e \<Rightarrow> (Inl e, w)
           | Inr (zf, z) \<Rightarrow>
               (case call_global ''exec_sql_statements'' ex [[DropTableIfExists (staging_table p)]] w of
                  (Inl e, w1) \<Rightarrow> (Inl e, w1)
                | (Inr u, w1) \<Rightarrow>
                    (case csv_loop p zf (CSV_FILES z) w1 of
                       (Inl e, w2) \<Rightarrow> (Inl e, w2)
                     | (Inr u, w2) \<Rightarrow>
                         call_global ''exec_sql_statements'' ex (info_commands p column_names)
                           (py_print ''merging tables...'' w2)))))"

subsection \<open>parse_vstreets\<close>

fun txt_loop :: "parser \<Rightarrow> (string \<times> content) list \<Rightarrow> string list \<Rightarrow> unit py" where
  "txt_loop p z [] w = (Inr (), w)"
| "txt_loop p z (txt_file # files) w =
     (case lookup_entry z txt_file of
        None \<Rightarrow> (Inl (KeyError, txt_file), w)
      | Some txt \<Rightarrow>
          (case copy_from_csv (CopyFromStdin (vstreet_table p)) (txt_file, txt) w of
             (Inl e, w1) \<Rightarrow> (Inl e, w1)
           | (Inr u, w1) \<Rightarrow> txt_loop p z files w1))"

definition vstreets_drop_targets :: "parser \<Rightarrow> sql_stmt list list" where
  "vstreets_drop_targets p =
     [[DropTableIfExists (vstreet_table p), DropTableIfExists (vstreet_target p)]]"

definition vstreets_create :: "parser \<Rightarrow> sql_stmt list list" where
  "vstreets_create p =
     [[CreateTable (vstreet_table p) [(''postcode'', TVarchar 8), (''vstreet_ref'', TVarchar 8)]]]"

definition SQL_COMMANDS_CLEAN :: "parser \<Rightarrow> sql_stmt list list" where
  "SQL_COMMANDS_CLEAN p =
     [[AddColumn (vstreet_table p) ''id'' TBigserial],
      [CreateTableAs False (vstreet_target p)
         [Col ''id'', Col ''postcode'', Col ''vstreet_ref''] (FromTable (vstreet_table p))],
      [AddPrimaryKey (vstreet_target p) ''id'']]"

definition SQL_COMMANDS_DROP :: "parser \<Rightarrow> sql_stmt list list" where
  "SQL_COMMANDS_DROP p = [[DropTable (vstreet_table p)]]"

definition TXT_FILES :: "(string \<times> content) list \<Rightarrow> string list" where
  "TXT_FILES z =
     filter (\<lambda>f. endswith f ''.TXT'' \<and> startswith f ''Polygons/Data/VERTICAL_STREETS'') (map fst z)"

definition parse_vstreets :: "sql_exec option \<Rightarrow> parser \<Rightarrow> unit py" where
  "parse_vstreets ex p w =
     (case open_archive p w of
        Inl e \<Rightarrow> (Inl e, w)
      | Inr (zf, z) \<Rightarrow>
          (case call_global ''exec_sql_statements'' ex (vstreets_drop_targets p) w of
             (Inl e, w1) \<Rightarrow> (Inl e, w1)
           | (Inr u, w1) \<Rightarrow>
               (case call_global ''exec_sql_statements'' ex (vstreets_create p) w1 of
                  (Inl e, w2) \<Rightarrow> (Inl e, w2)
                | (Inr u, w2) \<Rightarrow>
                    (case txt_loop p z (TXT_FILES z) w2 of
                       (Inl e, w3) \<Rightarrow> (Inl e, w3)
                     | (Inr u, w3) \<Rightarrow>
                         (case call_global ''exec_sql_statements'' ex (SQL_COMMANDS_CLEAN p) w3 of
                            (Inl e, w4) \<Rightarrow> (Inl e, w4)
                          | (Inr u, w4) \<Rightarrow>
                              call_global ''exec_sql_statements'' ex (SQL_COMMANDS_DROP p) w4)))))"

subsection \<open>index_tables\<close>

definition index_commands :: "sql_stmt list list" where
  "index_commands =
     [[CreateIndex ''core_postcode_polygon_id'' ''public.core_postcode'' Gist ''polygon'' None],
      [CreateIndex ''core_postcode_postcode_36243775'' ''public.core_postcode'' Btree ''postcode'' None],
      [CreateIndex ''core_postcode_postcode_36243775_like'' ''public.core_postcode'' Btree ''postcode''
         (Some ''varchar_pattern_ops'')],
      [CreateIndex ''core_vstreetlookup_postcode_4a092989'' ''public.core_vstreetlookup'' Btree ''postcode'' None],
      [CreateIndex ''core_vstreetlookup_postcode_4a092989_like'' ''public.core_vstreetlookup'' Btree ''postcode''
         (Some ''varchar_pattern_ops'')],
      [CreateIndex ''core_vstreetlookup_vstreet_ref_b613262c'' ''public.core_vstreetlookup'' Btree ''vstreet_ref'' None],
      [CreateIndex ''core_vstreetlookup_vstreet_ref_b613262c_like'' ''public.core_vstreetlookup'' Btree ''vstreet_ref''
         (Some ''varchar_pattern_ops'')]]"

definition index_tables :: "sql_exec option \<Rightarrow> parser \<Rightarrow> unit py" where
  "index_tables ex p w = call_global ''exec_sql_statements'' ex index_commands w"

subsection \<open>cleanup\<close>

text \<open>
  \<^verbatim>\<open>for f in os.listdir(self.base_path): os.remove(self.base_path / f)\<close>: each path is
  joined before its file is removed.
\<close>

fun cleanup_loop :: "parser \<Rightarrow> string list \<Rightarrow> unit py" where
  "cleanup_loop p [] w = (Inr (), w)"
| "cleanup_loop p (f # fs) w =
     (case truediv (base_path p) f of
        Inl e \<Rightarrow> (Inl e, w)
      | Inr path \<Rightarrow> cleanup_loop p fs (w\<lparr>w_files := filter (\<lambda>e. fst e \<noteq> f) (w_files w)\<rparr>))"

definition cleanup :: "parser \<Rightarrow> unit py" where
  "cleanup p w = cleanup_loop p (map fst (w_files w)) w"

subsection \<open>parse\<close>

datatype stage = Prepare | GeometryIngest | AttributeIngest | StreetIngest | Index | Cleanup

datatype outcome = Returned | Raised pyerr

text \<open>
  The orchestrator over any six stage bodies acting on a state \<open>'s\<close>.  Beside the result
  it yields the record of the calls made: each stage entered, with how it ended.
\<close>

record 's stage_bodies =
  body_prepare :: "'s \<Rightarrow> (pyerr + bool \<times> string) \<times> 's"
  body_parse_polys :: "'s \<Rightarrow> (pyerr + unit) \<times> 's"
  body_parse_info :: "'s \<Rightarrow> (pyerr + unit) \<times> 's"
  body_parse_vstreets :: "'s \<Rightarrow> (pyerr + unit) \<times> 's"
  body_index_tables :: "'s \<Rightarrow> (pyerr + unit) \<times> 's"
  body_cleanup :: "'s \<Rightarrow> (pyerr + unit) \<times> 's"

definition run_stage ::
  "stage \<Rightarrow> ('s \<Rightarrow> (pyerr + 'a) \<times> 's) \<Rightarrow> (stage \<times> outcome) list \<times> 's
     \<Rightarrow> (pyerr + 'a) \<times> (stage \<times> outcome) list \<times> 's" where
  "run_stage st f cs =
     (case f (snd cs) of
        (Inl e, s') \<Rightarrow> (Inl e, fst cs @ [(st, Raised e)], s')
      | (Inr a, s') \<Rightarrow> (Inr a, fst cs @ [(st, Returned)], s'))"

definition parse_with ::
  "'s stage_bodies \<Rightarrow> 's \<Rightarrow> (pyerr + bool \<times> string) \<times> (stage \<times> outcome) list \<times> 's" where
  "parse_with b s =
     (case run_stage Prepare (body_prepare b) ([], s) of
        (Inl e, c1) \<Rightarrow> (Inl e, c1)
      | (Inr (err, msg), c1) \<Rightarrow>
          (if err then (Inr (err, msg), c1)
           else
             (case run_stage GeometryIngest (body_parse_polys b) c1 of
                (Inl e, c2) \<Rightarrow> (Inl e, c2)
              | (Inr u, c2) \<Rightarrow>
                  (case run_stage AttributeIngest (body_parse_info b) c2 of
                     (Inl e, c3) \<Rightarrow> (Inl e, c3)
                   | (Inr u, c3) \<Rightarrow>
                       (case run_stage StreetIngest (body_parse_vstreets b) c3 of
                          (Inl e, c4) \<Rightarrow> (Inl e, c4)
                        | (Inr u, c4) \<Rightarrow>
                            (case run_stage Index (body_index_tables b) c4 of
                               (Inl e, c5) \<Rightarrow> (Inl e, c5)
                             | (Inr u, c5) \<Rightarrow>
                                 (case run_stage Cleanup (body_cleanup b) c5 of
                                    (Inl e, c6) \<Rightarrow> (Inl e, c6)
                                  | (Inr u, c6) \<Rightarrow> (Inr (False, []), c6))))))))"

definition on_world :: "(parser \<Rightarrow> 'a py) \<Rightarrow> parser \<times> world \<Rightarrow> (pyerr + 'a) \<times> parser \<times> world" where
  "on_world f s = (case f (fst s) (snd s) of (r, w') \<Rightarrow> (r, fst s, w'))"

text \<open>The stages of \<^verbatim>\<open>PostcodeParser\<close>, on the object and the world.\<close>

definition parser_stages :: "sql_exec option \<Rightarrow> (parser \<times> world) stage_bodies" where
  "parser_stages ex =
     \<lparr>body_prepare = (\<lambda>s. prepare (fst s) (snd s)),
      body_parse_polys = on_world (parse_polys ex),
      body_parse_info = on_world (parse_info ex),
      body_parse_vstreets = on_world (parse_vstreets ex),
      body_index_tables = on_world (index_tables ex),
      body_cleanup = on_world cleanup\<rparr>"

definition parse ::
  "sql_exec option \<Rightarrow> parser \<Rightarrow> world \<Rightarrow> (pyerr + bool \<times> string) \<times> (stage \<times> outcome) list \<times> parser \<times> world" where
  "parse ex p w = parse_with (parser_stages ex) (p, w)"

definition stage_order :: "stage list" where
  "stage_order = [Prepare, GeometryIngest, AttributeIngest, StreetIngest, Index, Cleanup]"

section \<open>The specification's reading of the header file\<close>

text \<open>
  The Schema Mapper as the specification words it: the last non-empty line of the header
  file, split on the delimiter, each token lower-cased.  A line is empty when nothing
  stands before its terminator.
\<close>

definition line_body :: "string \<Rightarrow> string" where
  "line_body l = (if l \<noteq> [] \<and> last l = CHR 0x0A then butlast l else l)"

definition spec_column_names :: "string \<Rightarrow> string list option" where
  "spec_column_names txt =
     (case filter (\<lambda>l. line_body l \<noteq> []) (readlines txt) of
        [] \<Rightarrow> None
      | l # ls \<Rightarrow> Some (map lower (split_on CHR '','' (line_body (last (l # ls))))))"

text \<open>The target names the code derives: each token of its header line, lower-cased.\<close>

definition target_names :: "string list \<Rightarrow> string list" where
  "target_names column_names = map lower column_names"


section \<open>Example inputs\<close>

definition empty_db :: database where
  "empty_db = \<lparr>tables = Map.empty, indexes = []\<rparr>"

text \<open>An empty working directory, a reachable and empty store, an empty remote folder.\<close>

definition fresh_world :: world where
  "fresh_world =
     \<lparr>w_files = [], w_dir_ok = True, w_drive = (\<lambda>folder team. Some []), w_db = empty_db,
      w_db_online = True, w_open_conns = 0, w_stdout = [], w_log = []\<rparr>"

text \<open>
  A working directory as \<^verbatim>\<open>prepare\<close> would leave it: the header file and the top-level
  archive.  The archive holds two nested archives with one shapefile each, one attribute
  file and one street file with two records.
\<close>

definition shp_fields :: "(string \<times> coltype) list" where
  "shp_fields = [(''wkb_geometry'', TGeometry), (''postcode'', TVarchar 8), (''pc_area'', TVarchar 2)]"

definition sample_archive :: "(string \<times> content) list" where
  "sample_archive =
     [(''a.zip'', Zip [(''A.shp'', Layer shp_fields
                                    [[VText ''POLYGON A'', VText ''AB1 2CD'', VText ''AB'']])]),
      (''b.zip'', Zip [(''B.shp'', Layer shp_fields
                                    [[VText ''POLYGON B'', VText ''AB1 2CE'', VText ''AB'']])]),
      (''Code-Point/Data/CSV/ab.csv'',
         Layer [(''field_1'', TText), (''field_2'', TText), (''field_3'', TText), (''field_4'', TText)]
               [[VText ''AB1 2CD'', VText ''394251'', VText ''806376'', VText ''S92000003'']]),
      (''Polygons/Data/VERTICAL_STREETS/vs.TXT'',
         Csv [[Some ''AB1 2CD'', Some ''VS01''], [Some ''AB1 2CE'', Some ''VS02'']])]"

definition sample_world :: world where
  "sample_world =
     fresh_world\<lparr>w_files := [(''header.csv'', Text ''Postcode,Eastings,Northings,Country_code''),
                              (''data.zip'', Zip sample_archive)]\<rparr>"

text \<open>
  The object after \<^verbatim>\<open>prepare\<close> in a deployment that binds \<^verbatim>\<open>DATASETS_DIR\<close> to a path object, and
  the object the module as it stands would have, with the same files found.
\<close>

definition sample_parser :: parser where
  "sample_parser =
     PostcodeParser_init\<lparr>base_path := PyPath ''datasets'', zip_file := Some ''data.zip'',
                          header_file := Some ''header.csv''\<rparr>"

definition shipped_parser :: parser where
  "shipped_parser = PostcodeParser_init\<lparr>zip_file := Some ''data.zip'', header_file := Some ''header.csv''\<rparr>"

text \<open>A street file one of whose references is longer than the eight characters of its column.\<close>

definition long_ref_archive :: "(string \<times> content) list" where
  "long_ref_archive =
     [(''Polygons/Data/VERTICAL_STREETS/bad.TXT'',
         Csv [[Some ''AB1 2CD'', Some ''VS01''], [Some ''AB1 2CE'', Some ''VERTICALSTREET02'']]),
      (''Polygons/Data/VERTICAL_STREETS/good.TXT'', Csv [[Some ''AB1 2CF'', Some ''VS03'']])]"

text \<open>A store holding the two final tables of the pipeline, as the ingest stages name them.\<close>

definition loaded_db :: database where
  "loaded_db =
     \<lparr>tables =
        [''postcode'' \<mapsto>
           \<lparr>t_cols = [''id'', ''postcode'', ''pc_area'', ''country_code'', ''polygon''],
            t_types = [TInt, TVarchar 8, TVarchar 2, TVarchar 16, TGeography],
            t_rows = [[VInt 1, VText ''AB1 2CD'', VText ''AB'', VText ''S92000003'', VText ''POLYGON A'']],
            t_pkey = Some ''id''\<rparr>,
         ''vstreetlookup'' \<mapsto>
           \<lparr>t_cols = [''id'', ''postcode'', ''vstreet_ref''],
            t_types = [TBigint, TVarchar 8, TVarchar 8],
            t_rows = [[VInt 1, VText ''AB1 2CD'', VText ''VS01'']],
            t_pkey = Some ''id''\<rparr>],
      indexes = []\<rparr>"

text \<open>
  The attribute stage's input in full: the Geometry Table with two postcodes; a header
  file whose last line names the nineteen columns of the attribute files, Northings last,
  and ends with a line feed; and one attribute file with a record for the first postcode and
  a record for a postcode that has no geometry.
\<close>

definition geom_example :: table where
  "geom_example =
     \<lparr>t_cols = [''id'', ''postcode'', ''pc_area'', ''polygon''],
      t_types = [TInt, TVarchar 8, TVarchar 2, TGeography],
      t_rows = [[VInt 1, VText ''AB1 2CD'', VText ''AB'', VText ''POLYGON A''],
                [VInt 2, VText ''AB1 2CE'', VText ''AB'', VText ''POLYGON B'']],
      t_pkey = Some ''id''\<rparr>"

definition attr_fields :: "(string \<times> coltype) list" where
  "attr_fields = map (\<lambda>j. (''field_'' @ string_of_nat j, TText)) [1..<20]"

definition attr_header :: string where
  "attr_header = ''Code-Point header'' @ [CHR 0x0A]
         @ ''Postcode,Positional_quality_indicator,PO_Box_indicator,Total_number_of_deliv''
         @ ''ery_points,Delivery_points_used_to_create_the_CPLC,Domestic_delivery_points,''
         @ ''Non_domestic_delivery_points,PO_Box_delivery_points,Matched_address_premises''
         @ '',Unmatched_delivery_points,Eastings,Country_code,NHS_regional_HA_code,NHS_HA''
         @ ''_code,Admin_county_code,Admin_district_code,Admin_ward_code,Postcode_type,No''
         @ ''rthings''
         @ [CHR 0x0A]"

definition attr_archive :: "(string \<times> content) list" where
  "attr_archive =
     [(''Code-Point/Data/CSV/ab.csv'',
         Layer attr_fields
           [[VText ''AB1 2CD'', VText ''10'', VText ''N'', VText ''5'', VText ''5'',
             VText ''4'', VText ''1'', VText ''0'', VText ''5'', VText ''0'', VText ''394251'',
             VText ''S92000003'', VText ''S08000020'', VText ''S08000006'', VText ''S12000033'',
             VText ''S12000034'', VText ''S13002843'', VText ''S'', VText ''806376''],
            [VText ''ZZ9 9ZZ'', VText ''90'', VText ''Y'', VText ''1'', VText ''1'',
             VText ''0'', VText ''0'', VText ''1'', VText ''0'', VText ''1'', VText ''100000'',
             VText ''E92000001'', VText ''E19000001'', VText ''E18000001'', VText ''E10000001'',
             VText ''E07000001'', VText ''E05000001'', VText ''L'', VText ''200000'']])]"

definition attr_world :: world where
  "attr_world =
     fresh_world\<lparr>w_files := [(''header.csv'', Text attr_header), (''data.zip'', Zip attr_archive)],
                 w_db := \<lparr>tables = [''postcode_polygons'' \<mapsto> geom_example], indexes = []\<rparr>\<rparr>"

text \<open>The tokens of that header line, as \<^verbatim>\<open>readlines()[-1].split(',')\<close> gives them.\<close>

definition attr_names :: "string list" where
  "attr_names =
     [''Postcode'', ''Positional_quality_indicator'', ''PO_Box_indicator'',
      ''Total_number_of_delivery_points'', ''Delivery_points_used_to_create_the_CPLC'',
      ''Domestic_delivery_points'', ''Non_domestic_delivery_points'',
      ''PO_Box_delivery_points'', ''Matched_address_premises'',
      ''Unmatched_delivery_points'', ''Eastings'', ''Country_code'',
      ''NHS_regional_HA_code'', ''NHS_HA_code'', ''Admin_county_code'',
      ''Admin_district_code'', ''Admin_ward_code'', ''Postcode_type'',
      ''Northings'' @ [CHR 0x0A]]"

text \<open>Six stage bodies that each add their name to a list, the third of which raises.\<close>

definition sample_bodies :: "string list stage_bodies" where
  "sample_bodies =
     \<lparr>body_prepare = (\<lambda>s. (Inr (False, []), s @ [''prepare''])),
      body_parse_polys = (\<lambda>s. (Inr (), s @ [''parse_polys''])),
      body_parse_info = (\<lambda>s. (Inl (DatabaseError, ''cannot cast column''), s @ [''parse_info''])),
      body_parse_vstreets = (\<lambda>s. (Inr (), s @ [''parse_vstreets''])),
      body_index_tables = (\<lambda>s. (Inr (), s @ [''index_tables''])),
      body_cleanup = (\<lambda>s. (Inr (), s @ [''cleanup'']))\<rparr>"

subsection \<open>Notions used in the statements\<close>

text \<open>The tables a batch creates indexes on.\<close>

fun indexed_table :: "sql_stmt \<Rightarrow> string list" where
  "indexed_table (CreateIndex n t m c ops) = [t]"
| "indexed_table other = []"

text \<open>
  The rows one \<^verbatim>\<open>COPY\<close> of an archive entry adds to a table with the column types given, and
  the rows the entries named add in turn.
\<close>

definition copied_of :: "coltype list \<Rightarrow> content option \<Rightarrow> val list list" where
  "copied_of tys c =
     (case c of
        Some (Csv records) \<Rightarrow> (case input_rows tys records of Some rows \<Rightarrow> rows | None \<Rightarrow> [])
      | other \<Rightarrow> [])"

definition copied :: "coltype list \<Rightarrow> (string \<times> content) list \<Rightarrow> string list \<Rightarrow> val list list" where
  "copied tys z names = concat (map (\<lambda>f. copied_of tys (lookup_entry z f)) names)"

text \<open>Whether a statement drops the table named.\<close>

fun drops_table :: "string \<Rightarrow> sql_stmt \<Rightarrow> bool" where
  "drops_table t (DropTable u) = (unqualified u = unqualified t)"
| "drops_table t (DropTableIfExists u) = (unqualified u = unqualified t)"
| "drops_table t other = False"

section \<open>Properties\<close>

subsection \<open>Characters\<close>

lemma lower_char_upper: "is_upper c \<Longrightarrow> (of_char (lower_char c) :: nat) = of_char c + 32"
proof (cases c)
  case (Char b0 b1 b2 b3 b4 b5 b6 b7)
  assume "is_upper c"
  with Char show ?thesis
    by (cases b0; cases b1; cases b2; cases b3; cases b4; cases b5; cases b6; cases b7;
        simp add: is_upper_def lower_char_def less_eq_char_def)
qed

lemma lower_char_other: "\<not> is_upper c \<Longrightarrow> lower_char c = c"
  by (simp add: lower_char_def)

subsection \<open>Lines and tokens\<close>

lemma readlines_single:
  "l \<noteq> [] \<Longrightarrow> CHR 0x0A \<notin> set (butlast l) \<Longrightarrow> readlines l = [l]"
proof (induction l)
  case Nil
  then show ?case by simp
next
  case (Cons c cs)
  show ?case
  proof (cases "cs = []")
    case True
    then show ?thesis by simp
  next
    case False
    with Cons have "c \<noteq> CHR 0x0A" "readlines cs = [cs]" by auto
    then show ?thesis by simp
  qed
qed

lemma readlines_nonempty: "cs \<noteq> [] \<Longrightarrow> readlines cs \<noteq> []"
  by (cases cs) (auto split: list.splits)

lemma readlines_snoc_line:
  "pre = [] \<or> last pre = CHR 0x0A \<Longrightarrow> l \<noteq> [] \<Longrightarrow> CHR 0x0A \<notin> set (butlast l)
     \<Longrightarrow> readlines (pre @ l) = readlines pre @ [l]"
proof (induction pre)
  case Nil
  then show ?case by (simp add: readlines_single)
next
  case (Cons c cs)
  show ?case
  proof (cases "cs = []")
    case True
    with Cons.prems have c: "c = CHR 0x0A" by simp
    with True Cons.prems show ?thesis by (simp add: readlines_single)
  next
    case False
    with Cons have IH: "readlines (cs @ l) = readlines cs @ [l]" by simp
    from False obtain x xs where "readlines cs = x # xs"
      using readlines_nonempty by (cases "readlines cs") auto
    with IH show ?thesis by simp
  qed
qed

text \<open>
  C6, as the specification states it, fails: the column names come from the last line
  that \<^verbatim>\<open>readlines\<close> returns, empty or not.  A header file \<^verbatim>\<open>A,B\<close> followed by an empty
  line yields the single name made of that line's terminator, not \<^verbatim>\<open>a\<close> and \<^verbatim>\<open>b\<close>.
\<close>

theorem header_trailing_empty_line_counterexample:
  "header_column_names (''A,B'' @ [CHR 0x0A, CHR 0x0A]) = Inr [[CHR 0x0A]]
   \<and> target_names [[CHR 0x0A]] = [[CHR 0x0A]]
   \<and> spec_column_names (''A,B'' @ [CHR 0x0A, CHR 0x0A]) = Some [''a'', ''b'']
   \<and> Some (target_names [[CHR 0x0A]]) \<noteq> spec_column_names (''A,B'' @ [CHR 0x0A, CHR 0x0A])"
  by code_simp

text \<open>
  C6, amended: the column names are the tokens of the last line of the header file as
  \<^verbatim>\<open>readlines\<close> returns it, that is the text \<open>l\<close> after the last line break that is not the
  end of the file, with its own terminator if it has one; each token is lower-cased when
  used.  Where that line is not empty, the specification's names are those of the same
  line without its terminator.
\<close>

theorem header_column_names_last_line:
  assumes "pre = [] \<or> last pre = CHR 0x0A" and "l \<noteq> []" and "CHR 0x0A \<notin> set (butlast l)"
  shows "header_column_names (pre @ l) = Inr (split_on CHR '','' l)
       \<and> target_names (split_on CHR '','' l) = map lower (split_on CHR '','' l)
       \<and> (line_body l \<noteq> [] \<longrightarrow>
            spec_column_names (pre @ l) = Some (map lower (split_on CHR '','' (line_body l))))"
proof -
  have rl: "readlines (pre @ l) = readlines pre @ [l]"
    using assms by (rule readlines_snoc_line)
  have a: "header_column_names (pre @ l) = Inr (split_on CHR '','' l)"
    unfolding header_column_names_def rl by (cases "readlines pre") simp_all
  have b: "spec_column_names (pre @ l) = Some (map lower (split_on CHR '','' (line_body l)))"
    if "line_body l \<noteq> []"
  proof -
    have "filter (\<lambda>l. line_body l \<noteq> []) (readlines (pre @ l))
            = filter (\<lambda>l. line_body l \<noteq> []) (readlines pre) @ [l]"
      unfolding rl using that by simp
    then show ?thesis
      unfolding spec_column_names_def
      by (cases "filter (\<lambda>l. line_body l \<noteq> []) (readlines pre)") simp_all
  qed
  from a b show ?thesis by (simp add: target_names_def)
qed

lemma lower_two_names: "map lower [''Postcode'', ''Eastings''] = [''postcode'', ''eastings'']"
  by code_simp

theorem header_column_names_last_line_witness:
  "header_column_names ((''x'' @ [CHR 0x0A]) @ ''Postcode,Eastings'')
     = Inr [''Postcode'', ''Eastings'']
   \<and> target_names [''Postcode'', ''Eastings''] = [''postcode'', ''eastings'']
   \<and> spec_column_names ((''x'' @ [CHR 0x0A]) @ ''Postcode,Eastings'')
     = Some [''postcode'', ''eastings'']"
proof -
  have h1: "(''x'' @ [CHR 0x0A]) = [] \<or> last (''x'' @ [CHR 0x0A]) = CHR 0x0A" by simp
  have h2: "''Postcode,Eastings'' \<noteq> []" by simp
  have h3: "CHR 0x0A \<notin> set (butlast ''Postcode,Eastings'')" by simp
  show ?thesis
    using header_column_names_last_line[OF h1 h2 h3] lower_two_names
    by (simp add: line_body_def)
qed

subsection \<open>The column mapping plan\<close>

lemma plan_loop_upt:
  "k \<le> length names \<Longrightarrow>
   plan_loop p names [k..<length names] (cmds, sl) =
     (cmds @ map (\<lambda>(j, n). [RenameColumn (staging_table p) (''field_'' @ string_of_nat (j + 1)) (lower n)])
               (enumerate k (drop k names)),
      sl @ map (QCol (staging_table p)) (filter (\<lambda>n. n \<notin> set excluded_columns) (map lower (drop k names))))"
proof (induction "length names - k" arbitrary: k cmds sl)
  case 0
  then show ?case by simp
next
  case (Suc d)
  then have lt: "k < length names" by simp
  have upt: "[k..<length names] = k # [Suc k..<length names]"
    using lt by (simp add: upt_conv_Cons)
  have dr: "drop k names = names ! k # drop (Suc k) names"
    using lt by (simp add: Cons_nth_drop_Suc)
  have IH: "\<And>cmds sl. plan_loop p names [Suc k..<length names] (cmds, sl) =
     (cmds @ map (\<lambda>(j, n). [RenameColumn (staging_table p) (''field_'' @ string_of_nat (j + 1)) (lower n)])
               (enumerate (Suc k) (drop (Suc k) names)),
      sl @ map (QCol (staging_table p)) (filter (\<lambda>n. n \<notin> set excluded_columns) (map lower (drop (Suc k) names))))"
    using Suc.hyps(1)[of "Suc k"] Suc.hyps(2) lt by simp
  show ?case
    unfolding upt dr by (simp add: IH del: string_of_nat.simps)
qed

lemma column_mapping_plan_eq:
  "column_mapping_plan p names =
     (map (\<lambda>(j, n). [RenameColumn (staging_table p) (''field_'' @ string_of_nat (j + 1)) (lower n)])
          (enumerate 0 names),
      [QCol (geom_table p) ''id'', QCol (geom_table p) ''postcode'', QCol (geom_table p) ''pc_area'']
      @ map (QCol (staging_table p)) (filter (\<lambda>n. n \<notin> set excluded_columns) (map lower names))
      @ [QCol (geom_table p) ''polygon''])"
  unfolding column_mapping_plan_def
  using plan_loop_upt[of 0 names p "[]"]
  by simp

subsection \<open>prepare and the download call\<close>

lemma call_download_two_args:
  "call_download_gdrive_folder [a, b] w =
     (Inl (TypeError, ''download_gdrive_folder() missing 1 required positional argument(s): team_drive_id ''), w)"
  by (simp add: call_download_gdrive_folder_def call_positional_def download_gdrive_folder_params_def)

lemma prepare_cases:
  "prepare p w =
     (Inl (if w_dir_ok w
           then (TypeError, ''download_gdrive_folder() missing 1 required positional argument(s): team_drive_id '')
           else (OSError, show_val (base_path p))), p, w)"
  by (simp add: prepare_def os_makedirs_def call_download_two_args)

text \<open>
  C5: \<^verbatim>\<open>download_gdrive_folder\<close> has three required positional parameters and \<^verbatim>\<open>prepare\<close>
  passes two.  No invocation of \<^verbatim>\<open>prepare\<close> returns; once \<^verbatim>\<open>os.makedirs\<close> has returned, the
  exception is the TypeError of the download call, raised before the body of
  \<^verbatim>\<open>download_gdrive_folder\<close> runs (the world is unchanged); \<^verbatim>\<open>parse\<close> ends with that
  exception having entered no stage but Prepare.
\<close>

theorem prepare_raises_at_download_call:
  "\<exists>e. prepare p w = (Inl e, p, w)
       \<and> parse ex p w = (Inl e, [(Prepare, Raised e)], p, w)
       \<and> (w_dir_ok w \<longrightarrow>
            e = (TypeError, ''download_gdrive_folder() missing 1 required positional argument(s): team_drive_id '')
            \<and> call_download_gdrive_folder [PyStr (folder_id p), base_path p] w = (Inl e, w))"
  by (simp add: parse_def parse_with_def run_stage_def parser_stages_def prepare_cases
      call_download_two_args)

theorem prepare_raises_at_download_call_witness:
  "w_dir_ok fresh_world
   \<and> prepare PostcodeParser_init fresh_world =
       (Inl (TypeError, ''download_gdrive_folder() missing 1 required positional argument(s): team_drive_id ''),
        PostcodeParser_init, fresh_world)
   \<and> fst (snd (parse (Some exec_sql_statements) PostcodeParser_init fresh_world)) =
       [(Prepare, Raised (TypeError, ''download_gdrive_folder() missing 1 required positional argument(s): team_drive_id ''))]"
proof -
  have h: "w_dir_ok fresh_world" by (simp add: fresh_world_def)
  show ?thesis
    using h prepare_raises_at_download_call[of PostcodeParser_init fresh_world "Some exec_sql_statements"]
    by auto
qed

subsection \<open>Evaluation on the example inputs\<close>

lemmas world_defs = sample_world_def fresh_world_def sample_parser_def PostcodeParser_init_def
  sample_archive_def empty_db_def

lemmas prim_defs = exec_sql_statements_def call_global_def attr_def open_zip_def lookup_entry_def
  py_print_def endswith_def startswith_def unqualified_def put_table_def del_table_def
  ogr_append_def truediv_def truediv2_def open_archive_def run_stmt_def

subsection \<open>Defects shown on the example inputs\<close>

text \<open>
  C1 does not hold of the code: the batch that drops the staging table is issued inside
  the loop over the nested archives, once per nested archive.  On the example archive, with
  two nested archives of one shapefile each, the staging table is dropped twice, the second
  time after the first shapefile has been converted, and it ends with the one row of the
  second shapefile.
\<close>

theorem parse_polys_drops_per_nested_archive:
  "(case parse_polys_load (Some exec_sql_statements) sample_parser sample_world of
      (r, w') \<Rightarrow>
        r = Inr ()
      \<and> w_log w' =
          [SqlExec (DropTableIfExists ''postcode_staging''),
           System (Ogr2ogr [''data.zip'', ''a.zip'', ''A.shp''] ''postcode_staging''
                     (Some ''MULTIPOLYGON'') (Some ''EPSG:4326'')),
           SqlExec (DropTableIfExists ''postcode_staging''),
           System (Ogr2ogr [''data.zip'', ''b.zip'', ''B.shp''] ''postcode_staging''
                     (Some ''MULTIPOLYGON'') (Some ''EPSG:4326''))]
      \<and> map_option t_rows (tables (w_db w') ''postcode_staging'') =
          Some [[VInt 1, VText ''POLYGON B'', VText ''AB1 2CE'', VText ''AB'']])"
  by code_simp

text \<open>
  C2 does not hold of the code: every index is created on \<^verbatim>\<open>public.core_postcode\<close> or
  \<^verbatim>\<open>public.core_vstreetlookup\<close>, names written into the statements, and not on the tables
  \<^verbatim>\<open>postcode\<close> and \<^verbatim>\<open>vstreetlookup\<close> that the ingest stages create.  On a store holding those
  two tables the first statement fails, and no index is created.
\<close>

lemma first_index_well_formed:
  "well_formed (CreateIndex ''core_postcode_polygon_id'' ''public.core_postcode'' Gist ''polygon'' None)"
  by code_simp

theorem index_tables_names_other_tables:
  "concat (map indexed_table (concat index_commands)) =
     [''public.core_postcode'', ''public.core_postcode'', ''public.core_postcode'',
      ''public.core_vstreetlookup'', ''public.core_vstreetlookup'', ''public.core_vstreetlookup'',
      ''public.core_vstreetlookup'']
   \<and> unqualified ''public.core_postcode'' \<noteq> unqualified (target_table PostcodeParser_init)
   \<and> unqualified ''public.core_vstreetlookup'' \<noteq> unqualified (vstreet_target PostcodeParser_init)
   \<and> index_tables (Some exec_sql_statements) PostcodeParser_init (fresh_world\<lparr>w_db := loaded_db\<rparr>)
      = (Inl (DatabaseError, ''relation does not exist: public.core_postcode''),
         fresh_world\<lparr>w_db := loaded_db\<rparr>)"
  by (simp add: index_commands_def index_tables_def world_defs prim_defs loaded_db_def db_error_def
      first_index_well_formed)

text \<open>
  C3 does not hold of the code where the connection cannot be made: \<^verbatim>\<open>conn\<close> is still
  unbound when the \<^verbatim>\<open>finally\<close> block reads it, so after the error has been printed
  UnboundLocalError leaves \<^verbatim>\<open>copy_from_csv\<close>.
\<close>

theorem copy_from_csv_raises_when_connect_fails:
  "copy_from_csv (CopyFromStdin ''vstreet_table'')
     (''vs.TXT'', Csv [[Some ''AB1 2CD'', Some ''VS01'']])
     (fresh_world\<lparr>w_db_online := False\<rparr>)
   = (Inl (UnboundLocalError, ''cannot access local variable conn where it is not associated with a value''),
      fresh_world\<lparr>w_db_online := False, w_stdout := [''could not connect to server'']\<rparr>)"
  by (simp add: copy_from_csv_def copy_try_def py_print_def fresh_world_def)

text \<open>
  Where the connection is made, \<^verbatim>\<open>copy_from_csv\<close> returns whether or not the copy fails,
  and leaves no connection open.
\<close>

lemma copy_from_csv_returns_when_connected:
  "w_db_online w \<Longrightarrow>
     \<exists>w'. copy_from_csv sql_command csv_file w = (Inr (), w') \<and> w_open_conns w' = w_open_conns w"
  by (auto simp: copy_from_csv_def copy_try_def py_print_def Let_def split: sum.splits)

subsection \<open>The unbound name\<close>

lemma resolve_exec_None: "resolve_global ''exec_sql_statements'' impl = None"
  by (simp add: resolve_global_def module_globals_def builtin_names_def)

lemma call_unbound:
  "call_global name None arg w = (Inl (NameError, ''name '' @ name @ '' is not defined''), w)"
  by (simp add: call_global_def)

lemma nested_loop_unbound:
  "\<exists>e. nested_loop None p zf z zs w = (if zs = [] then Inr () else Inl e, w)"
  by (cases zs) (auto simp: call_unbound split: sum.splits)

lemma parse_polys_unbound:
  "\<exists>e w'. parse_polys None p w = (Inl e, w') \<and> w_db w' = w_db w \<and> w_log w' = w_log w"
proof (cases "open_archive p w")
  case (Inl e)
  then show ?thesis by (simp add: parse_polys_def parse_polys_load_def)
next
  case (Inr a)
  obtain zf z where a: "a = (zf, z)" by (cases a)
  obtain e where "nested_loop None p zf z (filter (\<lambda>f. endswith f ''.zip'') (map fst z)) w
      = (if filter (\<lambda>f. endswith f ''.zip'') (map fst z) = [] then Inr () else Inl e, w)"
    using nested_loop_unbound by blast
  with Inr a show ?thesis
    by (simp add: parse_polys_def parse_polys_load_def call_unbound py_print_def)
qed

lemma parse_info_unbound: "\<exists>e. parse_info None p w = (Inl e, w)"
  by (auto simp: parse_info_def call_unbound split: sum.splits)

lemma parse_vstreets_unbound: "\<exists>e. parse_vstreets None p w = (Inl e, w)"
  by (auto simp: parse_vstreets_def call_unbound split: sum.splits)

lemma index_tables_unbound:
  "index_tables None p w = (Inl (NameError, ''name exec_sql_statements is not defined''), w)"
  by (simp add: index_tables_def call_unbound)

lemma open_archive_path:
  "base_path p = PyPath d \<Longrightarrow> zip_file p = Some zf \<Longrightarrow> lookup_entry (w_files w) zf = Some (Zip z)
     \<Longrightarrow> open_archive p w = Inr (zf, z)"
  by (simp add: open_archive_def attr_def truediv_def open_zip_def)

lemma parse_polys_unbound_NameError:
  assumes "base_path p = PyPath d" and "zip_file p = Some zf"
    and "lookup_entry (w_files w) zf = Some (Zip z)"
    and "\<forall>n \<in> set (filter (\<lambda>f. endswith f ''.zip'') (map fst z)). \<exists>es. lookup_entry z n = Some (Zip es)"
  shows "fst (parse_polys None p w) = Inl (NameError, ''name exec_sql_statements is not defined'')"
proof (cases "filter (\<lambda>f. endswith f ''.zip'') (map fst z)")
  case Nil
  then show ?thesis using assms(1-3)
    by (simp add: parse_polys_def parse_polys_load_def open_archive_path call_unbound)
next
  case (Cons n ns)
  with assms(4) obtain es where "lookup_entry z n = Some (Zip es)" by auto
  with Cons show ?thesis using assms(1-3)
    by (simp add: parse_polys_def parse_polys_load_def open_archive_path open_zip_def
        truediv2_def truediv_def call_unbound)
qed

lemma parse_info_unbound_NameError:
  assumes "base_path p = PyPath d" and "zip_file p = Some zf"
    and "lookup_entry (w_files w) zf = Some (Zip z)" and "read_header p w = Inr names"
  shows "fst (parse_info None p w) = Inl (NameError, ''name exec_sql_statements is not defined'')"
  using assms by (simp add: parse_info_def open_archive_path call_unbound)

lemma parse_vstreets_unbound_NameError:
  assumes "base_path p = PyPath d" and "zip_file p = Some zf"
    and "lookup_entry (w_files w) zf = Some (Zip z)"
  shows "fst (parse_vstreets None p w) = Inl (NameError, ''name exec_sql_statements is not defined'')"
  using assms by (simp add: parse_vstreets_def open_archive_path call_unbound)

lemma str_base_path_TypeError:
  assumes "base_path p = PyStr s"
  shows "zip_file p = Some zf \<Longrightarrow>
           parse_polys ex p w = (Inl (TypeError, ''unsupported operand type(s) for /: str and str''), w)"
    and "header_file p = Some hf \<Longrightarrow>
           parse_info ex p w = (Inl (TypeError, ''unsupported operand type(s) for /: str and str''), w)"
    and "zip_file p = Some zf \<Longrightarrow>
           parse_vstreets ex p w = (Inl (TypeError, ''unsupported operand type(s) for /: str and str''), w)"
  using assms
  by (simp_all add: parse_polys_def parse_polys_load_def parse_info_def parse_vstreets_def
      open_archive_def read_header_def attr_def truediv_def)

text \<open>
  C4: \<^verbatim>\<open>exec_sql_statements\<close> is bound neither in the module's globals nor in the builtins,
  whatever implementation \<open>impl\<close> one has in mind for it, so every call of it raises NameError
  and leaves the world as it is.  The four stages that call it (geometry, attribute, street,
  index; \<^verbatim>\<open>prepare\<close> and \<^verbatim>\<open>cleanup\<close> contain no call) each end with an exception, with the
  store and the record of executed statements and commands as they were: no statement has
  run, and none of the four returns.  The exception is the NameError of the first call
  wherever that call is reached: always for \<^verbatim>\<open>index_tables\<close>, and for the ingest stages when
  \<^verbatim>\<open>base_path\<close> is a path object and the archive (its nested archives for \<^verbatim>\<open>parse_polys\<close>,
  the header file for \<^verbatim>\<open>parse_info\<close>) can be opened.  With the \<^verbatim>\<open>str\<close> that the module
  itself gives \<^verbatim>\<open>base_path\<close>, the ingest stages raise the TypeError of the path join before
  they reach the call.
\<close>

theorem stages_raise_NameError:
  "resolve_global ''exec_sql_statements'' impl = None
 \<and> call_global ''exec_sql_statements'' (resolve_global ''exec_sql_statements'' impl) cmds w
      = (Inl (NameError, ''name exec_sql_statements is not defined''), w)
 \<and> (\<exists>e w'. parse_polys (resolve_global ''exec_sql_statements'' impl) p w = (Inl e, w')
            \<and> w_db w' = w_db w \<and> w_log w' = w_log w)
 \<and> (\<exists>e. parse_info (resolve_global ''exec_sql_statements'' impl) p w = (Inl e, w))
 \<and> (\<exists>e. parse_vstreets (resolve_global ''exec_sql_statements'' impl) p w = (Inl e, w))
 \<and> index_tables (resolve_global ''exec_sql_statements'' impl) p w
      = (Inl (NameError, ''name exec_sql_statements is not defined''), w)
 \<and> (\<forall>d zf z. base_path p = PyPath d \<and> zip_file p = Some zf
        \<and> lookup_entry (w_files w) zf = Some (Zip z) \<longrightarrow>
      ((\<forall>n \<in> set (filter (\<lambda>f. endswith f ''.zip'') (map fst z)). \<exists>es. lookup_entry z n = Some (Zip es)) \<longrightarrow>
         fst (parse_polys (resolve_global ''exec_sql_statements'' impl) p w)
           = Inl (NameError, ''name exec_sql_statements is not defined''))
      \<and> ((\<exists>names. read_header p w = Inr names) \<longrightarrow>
           fst (parse_info (resolve_global ''exec_sql_statements'' impl) p w)
             = Inl (NameError, ''name exec_sql_statements is not defined''))
      \<and> fst (parse_vstreets (resolve_global ''exec_sql_statements'' impl) p w)
           = Inl (NameError, ''name exec_sql_statements is not defined''))
 \<and> (\<forall>s zf hf. base_path p = PyStr s \<and> zip_file p = Some zf \<and> header_file p = Some hf \<longrightarrow>
      fst (parse_polys (resolve_global ''exec_sql_statements'' impl) p w)
        = Inl (TypeError, ''unsupported operand type(s) for /: str and str'')
      \<and> fst (parse_info (resolve_global ''exec_sql_statements'' impl) p w)
        = Inl (TypeError, ''unsupported operand type(s) for /: str and str'')
      \<and> fst (parse_vstreets (resolve_global ''exec_sql_statements'' impl) p w)
        = Inl (TypeError, ''unsupported operand type(s) for /: str and str''))"
proof -
  have c: "call_global ''exec_sql_statements'' None cmds w
      = (Inl (NameError, ''name exec_sql_statements is not defined''), w)"
    by (simp add: call_unbound)
  have path: "\<forall>d zf z. base_path p = PyPath d \<and> zip_file p = Some zf
        \<and> lookup_entry (w_files w) zf = Some (Zip z) \<longrightarrow>
      ((\<forall>n \<in> set (filter (\<lambda>f. endswith f ''.zip'') (map fst z)). \<exists>es. lookup_entry z n = Some (Zip es)) \<longrightarrow>
         fst (parse_polys None p w) = Inl (NameError, ''name exec_sql_statements is not defined''))
      \<and> ((\<exists>names. read_header p w = Inr names) \<longrightarrow>
           fst (parse_info None p w) = Inl (NameError, ''name exec_sql_statements is not defined''))
      \<and> fst (parse_vstreets None p w) = Inl (NameError, ''name exec_sql_statements is not defined'')"
    using parse_polys_unbound_NameError[of p _ _ w] parse_info_unbound_NameError[of p _ _ w]
      parse_vstreets_unbound_NameError[of p _ _ w]
    by blast
  have str: "\<forall>s zf hf. base_path p = PyStr s \<and> zip_file p = Some zf \<and> header_file p = Some hf \<longrightarrow>
      fst (parse_polys None p w) = Inl (TypeError, ''unsupported operand type(s) for /: str and str'')
      \<and> fst (parse_info None p w) = Inl (TypeError, ''unsupported operand type(s) for /: str and str'')
      \<and> fst (parse_vstreets None p w) = Inl (TypeError, ''unsupported operand type(s) for /: str and str'')"
    by (simp add: str_base_path_TypeError)
  show ?thesis
    unfolding resolve_exec_None
    using c parse_polys_unbound[of p w] parse_info_unbound[of p w] parse_vstreets_unbound[of p w]
      index_tables_unbound[of p w] path str
    by (intro conjI) simp_all
qed

lemma sample_header:
  "read_header sample_parser sample_world = Inr [''Postcode'', ''Eastings'', ''Northings'', ''Country_code'']"
  by (simp add: read_header_def header_column_names_def world_defs prim_defs)

lemma sample_lookup: "lookup_entry (w_files sample_world) ''data.zip'' = Some (Zip sample_archive)"
  by (simp add: sample_world_def lookup_entry_def)

theorem stages_raise_NameError_witness:
  "base_path sample_parser = PyPath ''datasets''
 \<and> zip_file sample_parser = Some ''data.zip''
 \<and> lookup_entry (w_files sample_world) ''data.zip'' = Some (Zip sample_archive)
 \<and> list_all (\<lambda>n. \<exists>es. lookup_entry sample_archive n = Some (Zip es))
      (filter (\<lambda>f. endswith f ''.zip'') (map fst sample_archive))
 \<and> read_header sample_parser sample_world = Inr [''Postcode'', ''Eastings'', ''Northings'', ''Country_code'']
 \<and> fst (parse_polys (resolve_global ''exec_sql_statements'' exec_sql_statements) sample_parser sample_world)
      = Inl (NameError, ''name exec_sql_statements is not defined'')
 \<and> fst (parse_info (resolve_global ''exec_sql_statements'' exec_sql_statements) sample_parser sample_world)
      = Inl (NameError, ''name exec_sql_statements is not defined'')
 \<and> fst (parse_vstreets (resolve_global ''exec_sql_statements'' exec_sql_statements) sample_parser sample_world)
      = Inl (NameError, ''name exec_sql_statements is not defined'')
 \<and> base_path shipped_parser = PyStr DATASETS_DIR
 \<and> zip_file shipped_parser = Some ''data.zip''
 \<and> header_file shipped_parser = Some ''header.csv''
 \<and> fst (parse_polys (resolve_global ''exec_sql_statements'' exec_sql_statements) shipped_parser sample_world)
      = Inl (TypeError, ''unsupported operand type(s) for /: str and str'')"
proof -
  have h0: "base_path sample_parser = PyPath ''datasets''"
    by (simp add: sample_parser_def)
  have h1: "zip_file sample_parser = Some ''data.zip''"
    by (simp add: sample_parser_def)
  note h2 = sample_lookup
  have h3: "\<forall>n \<in> set (filter (\<lambda>f. endswith f ''.zip'') (map fst sample_archive)).
              \<exists>es. lookup_entry sample_archive n = Some (Zip es)"
    by (simp add: sample_archive_def endswith_def lookup_entry_def)
  note h4 = sample_header
  have s0: "base_path shipped_parser = PyStr DATASETS_DIR"
    and s1: "zip_file shipped_parser = Some ''data.zip''"
    and s2: "header_file shipped_parser = Some ''header.csv''"
    by (simp_all add: shipped_parser_def PostcodeParser_init_def)
  note t = stages_raise_NameError[of exec_sql_statements "[]" sample_world sample_parser]
  note u = stages_raise_NameError[of exec_sql_statements "[]" sample_world shipped_parser]
  have a: "fst (parse_polys (resolve_global ''exec_sql_statements'' exec_sql_statements) sample_parser sample_world)
      = Inl (NameError, ''name exec_sql_statements is not defined'')"
    using t h0 h1 h2 h3 by blast
  have b: "fst (parse_info (resolve_global ''exec_sql_statements'' exec_sql_statements) sample_parser sample_world)
      = Inl (NameError, ''name exec_sql_statements is not defined'')"
    using t h0 h1 h2 h4 by blast
  have c: "fst (parse_vstreets (resolve_global ''exec_sql_statements'' exec_sql_statements) sample_parser sample_world)
      = Inl (NameError, ''name exec_sql_statements is not defined'')"
    using t h0 h1 h2 by blast
  have d: "fst (parse_polys (resolve_global ''exec_sql_statements'' exec_sql_statements) shipped_parser sample_world)
      = Inl (TypeError, ''unsupported operand type(s) for /: str and str'')"
    using u s0 s1 s2 by blast
  from h0 h1 h2 h3 h4 a b c d s0 s1 s2 show ?thesis by (simp add: list_all_iff)
qed

subsection \<open>The orchestrator\<close>

lemma parse_with_cases:
  assumes p1: "body_prepare b s = (r1, s1)"
    and p2: "body_parse_polys b s1 = (r2, s2)"
    and p3: "body_parse_info b s2 = (r3, s3)"
    and p4: "body_parse_vstreets b s3 = (r4, s4)"
    and p5: "body_index_tables b s4 = (r5, s5)"
    and p6: "body_cleanup b s5 = (r6, s6)"
  shows "r1 = Inl e \<Longrightarrow> parse_with b s = (Inl e, [(Prepare, Raised e)], s1)"
    and "r1 = Inr (True, m) \<Longrightarrow> parse_with b s = (Inr (True, m), [(Prepare, Returned)], s1)"
    and "r1 = Inr (False, m) \<Longrightarrow> r2 = Inl e \<Longrightarrow>
           parse_with b s = (Inl e, [(Prepare, Returned), (GeometryIngest, Raised e)], s2)"
    and "r1 = Inr (False, m) \<Longrightarrow> r2 = Inr () \<Longrightarrow> r3 = Inl e \<Longrightarrow>
           parse_with b s =
             (Inl e, [(Prepare, Returned), (GeometryIngest, Returned), (AttributeIngest, Raised e)], s3)"
    and "r1 = Inr (False, m) \<Longrightarrow> r2 = Inr () \<Longrightarrow> r3 = Inr () \<Longrightarrow> r4 = Inl e \<Longrightarrow>
           parse_with b s =
             (Inl e, [(Prepare, Returned), (GeometryIngest, Returned), (AttributeIngest, Returned),
                      (StreetIngest, Raised e)], s4)"
    and "r1 = Inr (False, m) \<Longrightarrow> r2 = Inr () \<Longrightarrow> r3 = Inr () \<Longrightarrow> r4 = Inr () \<Longrightarrow> r5 = Inl e \<Longrightarrow>
           parse_with b s =
             (Inl e, [(Prepare, Returned), (GeometryIngest, Returned), (AttributeIngest, Returned),
                      (StreetIngest, Returned), (Index, Raised e)], s5)"
    and "r1 = Inr (False, m) \<Longrightarrow> r2 = Inr () \<Longrightarrow> r3 = Inr () \<Longrightarrow> r4 = Inr () \<Longrightarrow> r5 = Inr ()
           \<Longrightarrow> r6 = Inl e \<Longrightarrow>
           parse_with b s =
             (Inl e, [(Prepare, Returned), (GeometryIngest, Returned), (AttributeIngest, Returned),
                      (StreetIngest, Returned), (Index, Returned), (Cleanup, Raised e)], s6)"
    and "r1 = Inr (False, m) \<Longrightarrow> r2 = Inr () \<Longrightarrow> r3 = Inr () \<Longrightarrow> r4 = Inr () \<Longrightarrow> r5 = Inr ()
           \<Longrightarrow> r6 = Inr () \<Longrightarrow>
           parse_with b s =
             (Inr (False, []), [(Prepare, Returned), (GeometryIngest, Returned), (AttributeIngest, Returned),
                      (StreetIngest, Returned), (Index, Returned), (Cleanup, Returned)], s6)"
  using p1 p2 p3 p4 p5 p6 by (simp_all add: parse_with_def run_stage_def)

lemma parse_with_labels:
  "(case parse_with b s of
      (r, calls, s') \<Rightarrow>
        calls \<noteq> []
      \<and> prefix (map fst calls) stage_order
      \<and> list_all (\<lambda>c. snd c = Returned) (butlast calls)
      \<and> (\<forall>e. r = Inl e \<longleftrightarrow> snd (last calls) = Raised e)
      \<and> (\<forall>m. r = Inr (False, m) \<longrightarrow> m = [] \<and> map fst calls = stage_order))"
proof -
  obtain r1 s1 where p1: "body_prepare b s = (r1, s1)" by (cases "body_prepare b s")
  obtain r2 s2 where p2: "body_parse_polys b s1 = (r2, s2)" by (cases "body_parse_polys b s1")
  obtain r3 s3 where p3: "body_parse_info b s2 = (r3, s3)" by (cases "body_parse_info b s2")
  obtain r4 s4 where p4: "body_parse_vstreets b s3 = (r4, s4)" by (cases "body_parse_vstreets b s3")
  obtain r5 s5 where p5: "body_index_tables b s4 = (r5, s5)" by (cases "body_index_tables b s4")
  obtain r6 s6 where p6: "body_cleanup b s5 = (r6, s6)" by (cases "body_cleanup b s5")
  note c = parse_with_cases[OF p1 p2 p3 p4 p5 p6]
  consider
      (prepare_raised) e where "r1 = Inl e"
    | (prepare_err) m where "r1 = Inr (True, m)"
    | (polys_raised) m e where "r1 = Inr (False, m)" "r2 = Inl e"
    | (info_raised) m e where "r1 = Inr (False, m)" "r2 = Inr ()" "r3 = Inl e"
    | (vstreets_raised) m e where "r1 = Inr (False, m)" "r2 = Inr ()" "r3 = Inr ()" "r4 = Inl e"
    | (index_raised) m e where "r1 = Inr (False, m)" "r2 = Inr ()" "r3 = Inr ()" "r4 = Inr ()"
        "r5 = Inl e"
    | (cleanup_raised) m e where "r1 = Inr (False, m)" "r2 = Inr ()" "r3 = Inr ()" "r4 = Inr ()"
        "r5 = Inr ()" "r6 = Inl e"
    | (all_returned) m where "r1 = Inr (False, m)" "r2 = Inr ()" "r3 = Inr ()" "r4 = Inr ()"
        "r5 = Inr ()" "r6 = Inr ()"
    by (cases r1; cases r2; cases r3; cases r4; cases r5; cases r6) auto
  then show ?thesis
  proof cases
    case prepare_raised
    then show ?thesis by (simp add: c(1) stage_order_def)
  next
    case prepare_err
    then show ?thesis by (simp add: c(2) stage_order_def)
  next
    case polys_raised
    then show ?thesis by (simp add: c(3) stage_order_def)
  next
    case info_raised
    then show ?thesis by (simp add: c(4) stage_order_def)
  next
    case vstreets_raised
    then show ?thesis by (simp add: c(5) stage_order_def)
  next
    case index_raised
    then show ?thesis by (simp add: c(6) stage_order_def)
  next
    case cleanup_raised
    then show ?thesis by (simp add: c(7) stage_order_def)
  next
    case all_returned
    then show ?thesis by (simp add: c(8) stage_order_def)
  qed
qed

text \<open>
  C9: \<^verbatim>\<open>parse\<close> is the orchestrator run on the six methods of the object, and whatever the
  six stage bodies do, it applies them one after the other, each to the state the one
  before it left: \<open>s1\<close> is the state after Prepare on the initial state, \<open>s2\<close> after
  GeometryIngest on \<open>s1\<close>, and so on in the order Prepare, GeometryIngest, AttributeIngest,
  StreetIngest, Index, Cleanup.  It ends at the first stage that raises, with that
  exception and with the state that stage left (or at Prepare, when Prepare reports an
  error): no later body has touched the state, and no body has been applied twice.  When all
  six return it returns \<^verbatim>\<open>(False, '')\<close> with the state Cleanup left.  The record of the calls
  says the same: the stages entered are a prefix of the order, every stage but the last one
  entered has returned, and \<^verbatim>\<open>parse\<close> ends with an exception exactly when the last stage
  entered raised it.
\<close>

theorem parse_runs_stages_in_order:
  assumes "body_prepare b s = (r1, s1)"
    and "body_parse_polys b s1 = (r2, s2)"
    and "body_parse_info b s2 = (r3, s3)"
    and "body_parse_vstreets b s3 = (r4, s4)"
    and "body_index_tables b s4 = (r5, s5)"
    and "body_cleanup b s5 = (r6, s6)"
  shows
    "(\<forall>e. r1 = Inl e \<longrightarrow> parse_with b s = (Inl e, [(Prepare, Raised e)], s1))
   \<and> (\<forall>m. r1 = Inr (True, m) \<longrightarrow> parse_with b s = (Inr (True, m), [(Prepare, Returned)], s1))
   \<and> (\<forall>m e. r1 = Inr (False, m) \<and> r2 = Inl e \<longrightarrow>
         parse_with b s = (Inl e, [(Prepare, Returned), (GeometryIngest, Raised e)], s2))
   \<and> (\<forall>m e. r1 = Inr (False, m) \<and> r2 = Inr () \<and> r3 = Inl e \<longrightarrow>
         parse_with b s =
           (Inl e, [(Prepare, Returned), (GeometryIngest, Returned), (AttributeIngest, Raised e)], s3))
   \<and> (\<forall>m e. r1 = Inr (False, m) \<and> r2 = Inr () \<and> r3 = Inr () \<and> r4 = Inl e \<longrightarrow>
         parse_with b s =
           (Inl e, [(Prepare, Returned), (GeometryIngest, Returned), (AttributeIngest, Returned),
                    (StreetIngest, Raised e)], s4))
   \<and> (\<forall>m e. r1 = Inr (False, m) \<and> r2 = Inr () \<and> r3 = Inr () \<and> r4 = Inr () \<and> r5 = Inl e \<longrightarrow>
         parse_with b s =
           (Inl e, [(Prepare, Returned), (GeometryIngest, Returned), (AttributeIngest, Returned),
                    (StreetIngest, Returned), (Index, Raised e)], s5))
   \<and> (\<forall>m e. r1 = Inr (False, m) \<and> r2 = Inr () \<and> r3 = Inr () \<and> r4 = Inr () \<and> r5 = Inr ()
           \<and> r6 = Inl e \<longrightarrow>
         parse_with b s =
           (Inl e, [(Prepare, Returned), (GeometryIngest, Returned), (AttributeIngest, Returned),
                    (StreetIngest, Returned), (Index, Returned), (Cleanup, Raised e)], s6))
   \<and> (\<forall>m. r1 = Inr (False, m) \<and> r2 = Inr () \<and> r3 = Inr () \<and> r4 = Inr () \<and> r5 = Inr ()
           \<and> r6 = Inr () \<longrightarrow>
         parse_with b s =
           (Inr (False, []), [(Prepare, Returned), (GeometryIngest, Returned), (AttributeIngest, Returned),
                    (StreetIngest, Returned), (Index, Returned), (Cleanup, Returned)], s6))
   \<and> (case parse_with b s of
        (r, calls, s') \<Rightarrow>
          calls \<noteq> []
        \<and> prefix (map fst calls) stage_order
        \<and> list_all (\<lambda>c. snd c = Returned) (butlast calls)
        \<and> (\<forall>e. r = Inl e \<longleftrightarrow> snd (last calls) = Raised e)
        \<and> (\<forall>m. r = Inr (False, m) \<longrightarrow> m = [] \<and> map fst calls = stage_order))
   \<and> parse ex p w = parse_with (parser_stages ex) (p, w)
   \<and> body_prepare (parser_stages ex) (p, w) = prepare p w
   \<and> body_parse_polys (parser_stages ex) (p, w) = (case parse_polys ex p w of (r, w') \<Rightarrow> (r, p, w'))
   \<and> body_parse_info (parser_stages ex) (p, w) = (case parse_info ex p w of (r, w') \<Rightarrow> (r, p, w'))
   \<and> body_parse_vstreets (parser_stages ex) (p, w) = (case parse_vstreets ex p w of (r, w') \<Rightarrow> (r, p, w'))
   \<and> body_index_tables (parser_stages ex) (p, w) = (case index_tables ex p w of (r, w') \<Rightarrow> (r, p, w'))
   \<and> body_cleanup (parser_stages ex) (p, w) = (case cleanup p w of (r, w') \<Rightarrow> (r, p, w'))"
proof -
  note c = parse_with_cases[OF assms]
  have cases: "(\<forall>e. r1 = Inl e \<longrightarrow> parse_with b s = (Inl e, [(Prepare, Raised e)], s1))"
    "(\<forall>m. r1 = Inr (True, m) \<longrightarrow> parse_with b s = (Inr (True, m), [(Prepare, Returned)], s1))"
    "(\<forall>m e. r1 = Inr (False, m) \<and> r2 = Inl e \<longrightarrow>
         parse_with b s = (Inl e, [(Prepare, Returned), (GeometryIngest, Raised e)], s2))"
    "(\<forall>m e. r1 = Inr (False, m) \<and> r2 = Inr () \<and> r3 = Inl e \<longrightarrow>
         parse_with b s =
           (Inl e, [(Prepare, Returned), (GeometryIngest, Returned), (AttributeIngest, Raised e)], s3))"
    "(\<forall>m e. r1 = Inr (False, m) \<and> r2 = Inr () \<and> r3 = Inr () \<and> r4 = Inl e \<longrightarrow>
         parse_with b s =
           (Inl e, [(Prepare, Returned), (GeometryIngest, Returned), (AttributeIngest, Returned),
                    (StreetIngest, Raised e)], s4))"
    "(\<forall>m e. r1 = Inr (False, m) \<and> r2 = Inr () \<and> r3 = Inr () \<and> r4 = Inr () \<and> r5 = Inl e \<longrightarrow>
         parse_with b s =
           (Inl e, [(Prepare, Returned), (GeometryIngest, Returned), (AttributeIngest, Returned),
                    (StreetIngest, Returned), (Index, Raised e)], s5))"
    "(\<forall>m e. r1 = Inr (False, m) \<and> r2 = Inr () \<and> r3 = Inr () \<and> r4 = Inr () \<and> r5 = Inr ()
           \<and> r6 = Inl e \<longrightarrow>
         parse_with b s =
           (Inl e, [(Prepare, Returned), (GeometryIngest, Returned), (AttributeIngest, Returned),
                    (StreetIngest, Returned), (Index, Returned), (Cleanup, Raised e)], s6))"
    "(\<forall>m. r1 = Inr (False, m) \<and> r2 = Inr () \<and> r3 = Inr () \<and> r4 = Inr () \<and> r5 = Inr ()
           \<and> r6 = Inr () \<longrightarrow>
         parse_with b s =
           (Inr (False, []), [(Prepare, Returned), (GeometryIngest, Returned), (AttributeIngest, Returned),
                    (StreetIngest, Returned), (Index, Returned), (Cleanup, Returned)], s6))"
    using c(1) c(2) c(3) c(4) c(5) c(6) c(7) c(8) by blast+
  have stages: "parse ex p w = parse_with (parser_stages ex) (p, w)"
    "body_prepare (parser_stages ex) (p, w) = prepare p w"
    "body_parse_polys (parser_stages ex) (p, w) = (case parse_polys ex p w of (r, w') \<Rightarrow> (r, p, w'))"
    "body_parse_info (parser_stages ex) (p, w) = (case parse_info ex p w of (r, w') \<Rightarrow> (r, p, w'))"
    "body_parse_vstreets (parser_stages ex) (p, w) = (case parse_vstreets ex p w of (r, w') \<Rightarrow> (r, p, w'))"
    "body_index_tables (parser_stages ex) (p, w) = (case index_tables ex p w of (r, w') \<Rightarrow> (r, p, w'))"
    "body_cleanup (parser_stages ex) (p, w) = (case cleanup p w of (r, w') \<Rightarrow> (r, p, w'))"
    by (simp_all add: parse_def parser_stages_def on_world_def)
  from cases parse_with_labels[of b s] stages show ?thesis
    by (intro conjI)
qed

theorem parse_runs_stages_in_order_witness:
  "body_prepare sample_bodies [] = (Inr (False, []), [''prepare''])
   \<and> body_parse_polys sample_bodies [''prepare''] = (Inr (), [''prepare'', ''parse_polys''])
   \<and> body_parse_info sample_bodies [''prepare'', ''parse_polys'']
       = (Inl (DatabaseError, ''cannot cast column''), [''prepare'', ''parse_polys'', ''parse_info''])
   \<and> parse_with sample_bodies [] =
       (Inl (DatabaseError, ''cannot cast column''),
        [(Prepare, Returned), (GeometryIngest, Returned),
         (AttributeIngest, Raised (DatabaseError, ''cannot cast column''))],
        [''prepare'', ''parse_polys'', ''parse_info''])
   \<and> parse_with (sample_bodies\<lparr>body_parse_info := (\<lambda>s. (Inr (), s @ [''parse_info'']))\<rparr>) [] =
       (Inr (False, []),
        [(Prepare, Returned), (GeometryIngest, Returned), (AttributeIngest, Returned),
         (StreetIngest, Returned), (Index, Returned), (Cleanup, Returned)],
        [''prepare'', ''parse_polys'', ''parse_info'', ''parse_vstreets'', ''index_tables'', ''cleanup''])"
proof -
  have a1: "body_prepare sample_bodies [] = (Inr (False, []), [''prepare''])"
    and a2: "body_parse_polys sample_bodies [''prepare''] = (Inr (), [''prepare'', ''parse_polys''])"
    and a3: "body_parse_info sample_bodies [''prepare'', ''parse_polys'']
       = (Inl (DatabaseError, ''cannot cast column''), [''prepare'', ''parse_polys'', ''parse_info''])"
    and a4: "body_parse_vstreets sample_bodies [''prepare'', ''parse_polys'', ''parse_info'']
       = (Inr (), [''prepare'', ''parse_polys'', ''parse_info'', ''parse_vstreets''])"
    and a5: "body_index_tables sample_bodies [''prepare'', ''parse_polys'', ''parse_info'', ''parse_vstreets'']
       = (Inr (), [''prepare'', ''parse_polys'', ''parse_info'', ''parse_vstreets'', ''index_tables''])"
    and a6: "body_cleanup sample_bodies [''prepare'', ''parse_polys'', ''parse_info'', ''parse_vstreets'', ''index_tables'']
       = (Inr (), [''prepare'', ''parse_polys'', ''parse_info'', ''parse_vstreets'', ''index_tables'', ''cleanup''])"
    by (simp_all add: sample_bodies_def)
  let ?b = "sample_bodies\<lparr>body_parse_info := (\<lambda>s. (Inr (), s @ [''parse_info'']))\<rparr>"
  have b1: "body_prepare ?b [] = (Inr (False, []), [''prepare''])"
    and b2: "body_parse_polys ?b [''prepare''] = (Inr (), [''prepare'', ''parse_polys''])"
    and b3: "body_parse_info ?b [''prepare'', ''parse_polys'']
       = (Inr (), [''prepare'', ''parse_polys'', ''parse_info''])"
    and b4: "body_parse_vstreets ?b [''prepare'', ''parse_polys'', ''parse_info'']
       = (Inr (), [''prepare'', ''parse_polys'', ''parse_info'', ''parse_vstreets''])"
    and b5: "body_index_tables ?b [''prepare'', ''parse_polys'', ''parse_info'', ''parse_vstreets'']
       = (Inr (), [''prepare'', ''parse_polys'', ''parse_info'', ''parse_vstreets'', ''index_tables''])"
    and b6: "body_cleanup ?b [''prepare'', ''parse_polys'', ''parse_info'', ''parse_vstreets'', ''index_tables'']
       = (Inr (), [''prepare'', ''parse_polys'', ''parse_info'', ''parse_vstreets'', ''index_tables'', ''cleanup''])"
    by (simp_all add: sample_bodies_def)
  show ?thesis
    using parse_runs_stages_in_order[OF a1 a2 a3 a4 a5 a6]
      parse_runs_stages_in_order[OF b1 b2 b3 b4 b5 b6] a1 a2 a3
    by simp
qed

subsection \<open>The attribute stage on the example input\<close>

text \<open>
  The run of \<^verbatim>\<open>parse_info\<close> on the example input, with \<^verbatim>\<open>exec_sql_statements\<close> taken as the
  specification's batch primitive: it returns, and the Target Table it leaves has these
  columns and rows.
\<close>

lemma attr_run:
  "(case parse_info (Some exec_sql_statements) sample_parser attr_world of
      (r, w') \<Rightarrow> (r, map_option (\<lambda>T. (t_cols T, t_rows T)) (tables (w_db w') ''postcode'')))
   = (Inr (),
      Some ([''id'', ''postcode'', ''pc_area'', ''positional_quality_indicator'',
             ''po_box_indicator'', ''total_number_of_delivery_points'',
             ''domestic_delivery_points'', ''non_domestic_delivery_points'',
             ''po_box_delivery_points'', ''matched_address_premises'',
             ''unmatched_delivery_points'', ''country_code'',
             ''nhs_regional_ha_code'', ''nhs_ha_code'', ''admin_county_code'',
             ''admin_district_code'', ''admin_ward_code'', ''postcode_type'',
             ''northings'', ''polygon''],
            [[VInt 1, VText ''AB1 2CD'', VText ''AB'', VInt 10, VText ''N'', VInt 5,
              VInt 4, VInt 1, VInt 0, VInt 5, VInt 0, VText ''S92000003'',
              VText ''S08000020'', VText ''S08000006'', VText ''S12000033'',
              VText ''S12000034'', VText ''S13002843'', VText ''S'',
              VText ''806376'', VText ''POLYGON A''],
             [VInt 2, VText ''AB1 2CE'', VText ''AB'', VNull, VNull, VNull, VNull,
              VNull, VNull, VNull, VNull, VNull, VNull, VNull, VNull, VNull, VNull,
              VNull, VNull, VText ''POLYGON B'']]))"
  by code_simp

lemma attr_header_names: "read_header sample_parser attr_world = Inr attr_names"
  by code_simp

lemma attr_plan_facts:
  "''northings'' \<in> set excluded_columns
   \<and> length attr_names = 19
   \<and> last attr_names = ''Northings'' @ [CHR 0x0A]
   \<and> lower (last attr_names) \<notin> set excluded_columns
   \<and> sql_name (lower (last attr_names)) = ''northings''
   \<and> length (fst (column_mapping_plan sample_parser attr_names)) = 19
   \<and> QCol ''postcode_staging'' (lower (last attr_names)) \<in> set (snd (column_mapping_plan sample_parser attr_names))
   \<and> QCol ''postcode_staging'' (lower ''Eastings'') \<notin> set (snd (column_mapping_plan sample_parser attr_names))"
  by code_simp

text \<open>
  C7 does not hold of the code where the last column of the header line is one of the
  excluded names and the line ends with a line feed: \<^verbatim>\<open>readlines\<close> keeps the terminator, so
  the last token is \<^verbatim>\<open>Northings\<close> followed by a line feed, its lower-cased form is not in
  the exclusion list of line 246, and the column is added to the select list.  The engine
  reads the name without the white space, so the run of \<^verbatim>\<open>parse_info\<close> on the example
  input returns with the column \<^verbatim>\<open>northings\<close> in the Target Table, while \<^verbatim>\<open>eastings\<close>, in the
  middle of the line, is left out.  The plan does hold one rename per token, nineteen here.
\<close>

theorem parse_info_projects_excluded_last_column:
  "''northings'' \<in> set excluded_columns
   \<and> (\<exists>names. read_header sample_parser attr_world = Inr names
         \<and> length names = 19
         \<and> last names = ''Northings'' @ [CHR 0x0A]
         \<and> lower (last names) \<notin> set excluded_columns
         \<and> sql_name (lower (last names)) = ''northings''
         \<and> length (fst (column_mapping_plan sample_parser names)) = 19
         \<and> QCol ''postcode_staging'' (lower (last names)) \<in> set (snd (column_mapping_plan sample_parser names))
         \<and> QCol ''postcode_staging'' (lower ''Eastings'') \<notin> set (snd (column_mapping_plan sample_parser names)))
   \<and> (case parse_info (Some exec_sql_statements) sample_parser attr_world of
        (r, w') \<Rightarrow>
          r = Inr ()
        \<and> map_option t_cols (tables (w_db w') ''postcode'') =
            Some [''id'', ''postcode'', ''pc_area'', ''positional_quality_indicator'',
                  ''po_box_indicator'', ''total_number_of_delivery_points'',
                  ''domestic_delivery_points'', ''non_domestic_delivery_points'',
                  ''po_box_delivery_points'', ''matched_address_premises'',
                  ''unmatched_delivery_points'', ''country_code'',
                  ''nhs_regional_ha_code'', ''nhs_ha_code'', ''admin_county_code'',
                  ''admin_district_code'', ''admin_ward_code'', ''postcode_type'',
                  ''northings'', ''polygon''])"
proof -
  have plan: "\<exists>names. read_header sample_parser attr_world = Inr names
         \<and> length names = 19
         \<and> last names = ''Northings'' @ [CHR 0x0A]
         \<and> lower (last names) \<notin> set excluded_columns
         \<and> sql_name (lower (last names)) = ''northings''
         \<and> length (fst (column_mapping_plan sample_parser names)) = 19
         \<and> QCol ''postcode_staging'' (lower (last names)) \<in> set (snd (column_mapping_plan sample_parser names))
         \<and> QCol ''postcode_staging'' (lower ''Eastings'') \<notin> set (snd (column_mapping_plan sample_parser names))"
    using attr_header_names attr_plan_facts
    by (intro exI[of _ attr_names]) (elim conjE, intro conjI, assumption+)
  obtain r w' where run: "parse_info (Some exec_sql_statements) sample_parser attr_world = (r, w')"
    by (cases "parse_info (Some exec_sql_statements) sample_parser attr_world")
  have "r = Inr ()
        \<and> map_option t_cols (tables (w_db w') ''postcode'') =
            Some [''id'', ''postcode'', ''pc_area'', ''positional_quality_indicator'',
                  ''po_box_indicator'', ''total_number_of_delivery_points'',
                  ''domestic_delivery_points'', ''non_domestic_delivery_points'',
                  ''po_box_delivery_points'', ''matched_address_premises'',
                  ''unmatched_delivery_points'', ''country_code'',
                  ''nhs_regional_ha_code'', ''nhs_ha_code'', ''admin_county_code'',
                  ''admin_district_code'', ''admin_ward_code'', ''postcode_type'',
                  ''northings'', ''polygon'']"
    using attr_run unfolding run by (cases "tables (w_db w') ''postcode''") auto
  then have fin: "case parse_info (Some exec_sql_statements) sample_parser attr_world of
        (r, w') \<Rightarrow>
          r = Inr ()
        \<and> map_option t_cols (tables (w_db w') ''postcode'') =
            Some [''id'', ''postcode'', ''pc_area'', ''positional_quality_indicator'',
                  ''po_box_indicator'', ''total_number_of_delivery_points'',
                  ''domestic_delivery_points'', ''non_domestic_delivery_points'',
                  ''po_box_delivery_points'', ''matched_address_premises'',
                  ''unmatched_delivery_points'', ''country_code'',
                  ''nhs_regional_ha_code'', ''nhs_ha_code'', ''admin_county_code'',
                  ''admin_district_code'', ''admin_ward_code'', ''postcode_type'',
                  ''northings'', ''polygon'']"
    unfolding run by (simp only: prod.case)
  from conjunct1[OF attr_plan_facts] plan fin show ?thesis
    by (intro conjI)
qed

end
